theory Spec2Isabelle
  imports Complex_Main "HOL-Library.AList" "HOL-Library.Word"
begin

section \<open>Python values\<close>

text \<open>
  A Python \<open>str\<close> is a sequence of Unicode code points and \<open>len\<close> counts code points,
  so a string is modelled as the list of its code points. \<open>ascii\<close> embeds an ASCII
  literal. \<open>bytes\<close> are lists of octets.
\<close>

type_synonym pystr = "nat list"

type_synonym bytes = "8 word list"

definition ascii :: "string \<Rightarrow> pystr" where
  "ascii s = map of_char s"

text \<open>The line feed, written \<open>\n\<close> inside the source's string literals.\<close>

definition NL :: pystr where
  "NL = [10]"

text \<open>
  \<open>str.strip()\<close> without argument removes leading and trailing white space; the
  characters that count as white space for a \<open>str\<close> are those listed here.
\<close>

definition is_space :: "nat \<Rightarrow> bool" where
  "is_space c \<longleftrightarrow>
     (9 \<le> c \<and> c \<le> 13) \<or> (28 \<le> c \<and> c \<le> 32) \<or> c = 133 \<or> c = 160 \<or> c = 5760 \<or>
     (8192 \<le> c \<and> c \<le> 8202) \<or> c = 8232 \<or> c = 8233 \<or> c = 8239 \<or> c = 8287 \<or> c = 12288"

definition strip :: "pystr \<Rightarrow> pystr" where
  "strip s = rev (dropWhile is_space (rev (dropWhile is_space s)))"

text \<open>\<open>s.split(sep)\<close> for a one-character separator: the empty string gives \<open>['']\<close>.\<close>

fun split_sep :: "nat \<Rightarrow> pystr \<Rightarrow> pystr list" where
  "split_sep sep [] = [[]]"
| "split_sep sep (c # cs) =
     (if c = sep then [] # split_sep sep cs
      else (case split_sep sep cs of [] \<Rightarrow> [[c]] | w # ws \<Rightarrow> (c # w) # ws))"

text \<open>\<open>sep.join(parts)\<close>.\<close>

fun join :: "pystr \<Rightarrow> pystr list \<Rightarrow> pystr" where
  "join sep [] = []"
| "join sep [x] = x"
| "join sep (x # y # ys) = x @ sep @ join sep (y # ys)"

text \<open>\<open>str(n)\<close> for an \<open>int\<close>: the decimal digits, with a minus sign when negative.\<close>

fun str_nat :: "nat \<Rightarrow> pystr" where
  "str_nat n = (if n < 10 then [48 + n] else str_nat (n div 10) @ [48 + n mod 10])"

definition str_int :: "int \<Rightarrow> pystr" where
  "str_int i = (if i < 0 then 45 # str_nat (nat (- i)) else str_nat (nat i))"

text \<open>
  The values \<open>json.loads\<close> produces and \<open>json.dumps\<close> accepts. A \<open>dict\<close> is the list of
  its items in insertion order; a \<open>float\<close> is carried as the number it denotes.
\<close>

datatype json =
    JNull
  | JBool bool
  | JInt int
  | JFloat real
  | JStr pystr
  | JArr "json list"
  | JObj "(pystr \<times> json) list"


text \<open>Truth value testing, as \<open>if x\<close>, \<open>not x\<close> and \<open>x or y\<close> apply it.\<close>

fun truthy :: "json \<Rightarrow> bool" where
  "truthy JNull = False"
| "truthy (JBool b) = b"
| "truthy (JInt i) = (i \<noteq> 0)"
| "truthy (JFloat f) = (f \<noteq> 0)"
| "truthy (JStr s) = (s \<noteq> [])"
| "truthy (JArr xs) = (xs \<noteq> [])"
| "truthy (JObj kvs) = (kvs \<noteq> [])"

text \<open>An exception, with its class name and the text \<open>str(e)\<close> gives.\<close>

datatype exn = Exn (exn_class: string) (exn_text: pystr)

text \<open>A raising computation continues with its value, or stops with the exception.\<close>

definition ebind :: "exn + 'a \<Rightarrow> ('a \<Rightarrow> exn + 'b) \<Rightarrow> exn + 'b" where
  "ebind m f = (case m of Inl e \<Rightarrow> Inl e | Inr x \<Rightarrow> f x)"

text \<open>A list comprehension whose element expression may raise.\<close>

fun emap :: "('a \<Rightarrow> exn + 'b) \<Rightarrow> 'a list \<Rightarrow> exn + 'b list" where
  "emap f [] = Inr []"
| "emap f (x # xs) = ebind (f x) (\<lambda>y. ebind (emap f xs) (\<lambda>ys. Inr (y # ys)))"

text \<open>\<open>a or b\<close>, where \<open>a\<close> comes from \<open>dict.get\<close> and is \<open>None\<close> when the key is absent.\<close>

definition py_or :: "json option \<Rightarrow> json \<Rightarrow> json" where
  "py_or a b = (case a of None \<Rightarrow> b | Some v \<Rightarrow> if truthy v then v else b)"

text \<open>A value that may be \<open>None\<close>, as \<open>json.dumps\<close> sees it.\<close>

definition opt_json :: "json option \<Rightarrow> json" where
  "opt_json a = (case a of None \<Rightarrow> JNull | Some v \<Rightarrow> v)"

fun type_name :: "json \<Rightarrow> string" where
  "type_name JNull = ''NoneType''"
| "type_name (JBool b) = ''bool''"
| "type_name (JInt i) = ''int''"
| "type_name (JFloat f) = ''float''"
| "type_name (JStr s) = ''str''"
| "type_name (JArr xs) = ''list''"
| "type_name (JObj kvs) = ''dict''"

definition no_attribute :: "json \<Rightarrow> string \<Rightarrow> exn" where
  "no_attribute v a =
     Exn ''AttributeError''
       (ascii ([CHR 0x27] @ type_name v @ [CHR 0x27] @ '' object has no attribute '' @
               [CHR 0x27] @ a @ [CHR 0x27]))"

text \<open>\<open>v.get(k)\<close>: only a \<open>dict\<close> has the method.\<close>

definition py_get :: "json \<Rightarrow> pystr \<Rightarrow> exn + json option" where
  "py_get v k = (case v of JObj d \<Rightarrow> Inr (map_of d k) | _ \<Rightarrow> Inl (no_attribute v ''get''))"

text \<open>
  \<open>for r in v\<close>: a list gives its elements, a dict its keys, a string its characters;
  the other values are not iterable.
\<close>

definition py_iter :: "json \<Rightarrow> exn + json list" where
  "py_iter v =
     (case v of
        JArr xs \<Rightarrow> Inr xs
      | JObj d \<Rightarrow> Inr (map (\<lambda>kv. JStr (fst kv)) d)
      | JStr s \<Rightarrow> Inr (map (\<lambda>c. JStr [c]) s)
      | _ \<Rightarrow> Inl (Exn ''TypeError''
                 (ascii ([CHR 0x27] @ type_name v @ [CHR 0x27] @ '' object is not iterable''))))"

text \<open>\<open>len(v)\<close>.\<close>

definition py_len :: "json \<Rightarrow> exn + int" where
  "py_len v =
     (case v of
        JArr xs \<Rightarrow> Inr (int (length xs))
      | JObj d \<Rightarrow> Inr (int (length d))
      | JStr s \<Rightarrow> Inr (int (length s))
      | _ \<Rightarrow> Inl (Exn ''TypeError''
                 (ascii (''object of type '' @ [CHR 0x27] @ type_name v @ [CHR 0x27] @
                         '' has no len()''))))"

section \<open>The chat service (chat_server.py)\<close>

subsection \<open>Configuration, libraries and the outside world\<close>

text \<open>An outbound \<open>requests.post(url, headers=..., data=..., timeout=...)\<close>.\<close>

datatype payload = Text pystr | Raw bytes

record out_request =
  post_url :: pystr
  post_headers :: "(pystr \<times> pystr) list"
  post_data :: payload
  post_timeout :: int

text \<open>
  The response object of \<open>requests\<close>: its status code, reason phrase and URL, and what
  \<open>json()\<close> returns or raises.
\<close>

record reply =
  status_code :: int
  reason :: pystr
  reply_url :: pystr
  json_of :: "exn + json"

text \<open>
  \<open>Response.raise_for_status()\<close> of \<open>requests\<close>: an \<open>HTTPError\<close> for a status from 400 to
  599, nothing for any other status.
\<close>

definition raise_for_status :: "reply \<Rightarrow> exn option" where
  "raise_for_status r =
     (if 400 \<le> status_code r \<and> status_code r < 500 then
        Some (Exn ''HTTPError''
                (str_int (status_code r) @ ascii '' Client Error: '' @ reason r @
                 ascii '' for url: '' @ reply_url r))
      else if 500 \<le> status_code r \<and> status_code r < 600 then
        Some (Exn ''HTTPError''
                (str_int (status_code r) @ ascii '' Server Error: '' @ reason r @
                 ascii '' for url: '' @ reply_url r))
      else None)"

text \<open>What the code reads of the model provider's answers.\<close>

record usage_obj =
  prompt_tokens :: "int option"
  completion_tokens :: "int option"

record response_obj =
  output_text :: "pystr option"
  response_usage :: "usage_obj option"

text \<open>A completion's choices, each given by its \<open>message.content\<close>.\<close>

record completion =
  choices :: "pystr option list"
  completion_usage :: "usage_obj option"

text \<open>
  A chunk of a streamed completion: its \<open>choices\<close> attribute when it has one, each
  choice by its \<open>delta\<close> (or \<open>None\<close>), a delta by its \<open>content\<close> (or \<open>None\<close>).
\<close>

type_synonym stream_chunk = "pystr option option list option"

record message =
  role :: pystr
  content :: pystr

text \<open>
  The module's globals, read once from the environment; the library functions whose
  results the code depends on; and the answers of the vector store, of the model provider
  and of the client's connection. \<open>requests_post i\<close> answers the \<open>i\<close>-th outbound POST of a
  request's handling. A streamed completion is the list of its chunks and the exception
  that ends the iteration, if one does. \<open>broken_pipe_at\<close> is the number of streamed writes
  after which the client is gone.
\<close>

record world =
  OPENAI_API_KEY :: pystr
  CHAT_MODEL :: pystr
  CHAT_USE_RESP :: bool
  PORT :: int
  VS_API_BASE :: pystr
  VS_API_KEY :: pystr
  CHAT_API_SECRET :: pystr
  CORS_ALLOW_ORIGINS :: pystr
  LOG_LEVEL :: pystr
  TIMEOUT_S :: int
  TOP_K_DEFAULT :: int
  THRESH_DEFAULT :: real
  CHAT_HTML :: pystr
  openai_installed :: bool
  requests_installed :: bool
  json_dumps :: "json \<Rightarrow> pystr"
  json_loads :: "pystr \<Rightarrow> exn + json"
  utf8_decode :: "bytes \<Rightarrow> exn + pystr"
  py_str :: "json \<Rightarrow> pystr"
  int_of_str :: "pystr \<Rightarrow> exn + int"
  float_of_str :: "pystr \<Rightarrow> exn + real"
  float_of_int :: "int \<Rightarrow> exn + real"
  clock :: int
  requests_post :: "nat \<Rightarrow> out_request \<Rightarrow> exn + reply"
  responses_create :: "pystr \<Rightarrow> pystr \<Rightarrow> exn + response_obj"
  chat_create :: "pystr \<Rightarrow> message list \<Rightarrow> exn + completion"
  chat_create_stream :: "pystr \<Rightarrow> message list \<Rightarrow> exn + stream_chunk list \<times> exn option"
  broken_pipe_at :: "nat option"

text \<open>What a request's handling does, in order.\<close>

datatype event =
    Post out_request
  | Sleep
  | Log
  | ResponsesCreate pystr pystr
  | ChatCreate pystr "message list" bool
  | PrintExc exn
  | SendHeaders int "(pystr \<times> pystr) list"
  | Write pystr

text \<open>
  \<open>client()\<close>. The handle it caches in \<open>_client\<close> exists only when the package is
  installed and the key is set, so the result depends on the configuration alone.
\<close>

definition client :: "world \<Rightarrow> exn + unit" where
  "client w =
     (if OPENAI_API_KEY w = [] then Inl (Exn ''RuntimeError'' (ascii ''Missing OPENAI_API_KEY''))
      else if \<not> openai_installed w then
        Inl (Exn ''RuntimeError''
               (ascii (''Missing '' @ [CHR 0x27] @ ''openai'' @ [CHR 0x27] @ '' package'')))
      else Inr ())"

definition log :: "world \<Rightarrow> event list" where
  "log w = (if LOG_LEVEL w = ascii ''DEBUG'' \<or> LOG_LEVEL w = ascii ''INFO'' then [Log] else [])"

text \<open>
  \<open>CORS_ALLOW\<close>: the comma-separated origins of the environment variable, stripped, the
  empty ones dropped.
\<close>

definition CORS_ALLOW :: "world \<Rightarrow> pystr list" where
  "CORS_ALLOW w = filter (\<lambda>o'. o' \<noteq> []) (map strip (split_sep 44 (CORS_ALLOW_ORIGINS w)))"

definition allow_origin :: "world \<Rightarrow> pystr option \<Rightarrow> pystr option" where
  "allow_origin w origin =
     (if CORS_ALLOW w = [] then Some (ascii ''*'')
      else (case origin of
              None \<Rightarrow> None
            | Some og \<Rightarrow> if og \<noteq> [] \<and> og \<in> set (CORS_ALLOW w) then Some og else None))"

subsection \<open>The RAG client\<close>

text \<open>
  \<open>int(v)\<close> and \<open>float(v)\<close>. A \<open>float\<close> is truncated towards zero; what \<open>int\<close> and \<open>float\<close>
  make of a string, and \<open>float\<close> of an \<open>int\<close> (an \<open>OverflowError\<close> when it is too large), is the
  library's.
\<close>

definition py_int :: "world \<Rightarrow> json \<Rightarrow> exn + int" where
  "py_int w v =
     (case v of
        JInt i \<Rightarrow> Inr i
      | JBool b \<Rightarrow> Inr (if b then 1 else 0)
      | JFloat f \<Rightarrow> Inr (if f < 0 then \<lceil>f\<rceil> else \<lfloor>f\<rfloor>)
      | JStr s \<Rightarrow> int_of_str w s
      | _ \<Rightarrow> Inl (Exn ''TypeError''
                 (ascii (''int() argument must be a string, a bytes-like object or a real number, not '' @
                         [CHR 0x27] @ type_name v @ [CHR 0x27]))))"

definition py_float :: "world \<Rightarrow> json \<Rightarrow> exn + real" where
  "py_float w v =
     (case v of
        JFloat f \<Rightarrow> Inr f
      | JInt i \<Rightarrow> float_of_int w i
      | JBool b \<Rightarrow> Inr (if b then 1 else 0)
      | JStr s \<Rightarrow> float_of_str w s
      | _ \<Rightarrow> Inl (Exn ''TypeError''
                 (ascii (''float() argument must be a string or a real number, not '' @
                         [CHR 0x27] @ type_name v @ [CHR 0x27]))))"

definition search_request ::
  "world \<Rightarrow> pystr \<Rightarrow> int \<Rightarrow> real \<Rightarrow> bool \<Rightarrow> json option \<Rightarrow> out_request" where
  "search_request w query top_k threshold include_text filters =
     \<lparr>post_url = VS_API_BASE w @ ascii ''/api/vs/search'',
      post_headers =
        (ascii ''Content-Type'', ascii ''application/json'') #
        (if VS_API_KEY w \<noteq> [] then [(ascii ''X-LOT-KEY'', VS_API_KEY w)] else []),
      post_data =
        Text (json_dumps w (JObj
          [(ascii ''query'', JStr query),
           (ascii ''top_k'', JInt top_k),
           (ascii ''threshold'', JFloat threshold),
           (ascii ''include_text'', JBool include_text),
           (ascii ''filters'', py_or filters (JObj []))])),
      post_timeout = TIMEOUT_S w\<rparr>"

text \<open>
  The body of the \<open>try\<close> in the retry loop, for the \<open>i\<close>-th POST: \<open>Inl\<close> when it raises,
  \<open>Inr (Some v)\<close> when it returns \<open>v\<close>, \<open>Inr None\<close> when the success flag is not truthy and
  the loop goes on.
\<close>

definition rag_attempt :: "world \<Rightarrow> nat \<Rightarrow> out_request \<Rightarrow> exn + json option" where
  "rag_attempt w i rq =
     ebind (requests_post w i rq) (\<lambda>r.
       case raise_for_status r of
         Some e \<Rightarrow> Inl e
       | None \<Rightarrow>
           ebind (json_of r) (\<lambda>data.
             ebind (py_get data (ascii ''ok'')) (\<lambda>ok.
               if truthy (opt_json ok) then
                 ebind (py_get data (ascii ''results'')) (\<lambda>res.
                   Inr (Some (case res of None \<Rightarrow> JArr [] | Some v \<Rightarrow> v)))
               else Inr None)))"

text \<open>
  \<open>for _ in range(2)\<close>, from attempt \<open>i\<close> with \<open>n\<close> iterations left: the value returned
  from inside the loop, if any, and the events.
\<close>

fun rag_loop :: "world \<Rightarrow> out_request \<Rightarrow> nat \<Rightarrow> nat \<Rightarrow> json option \<times> event list" where
  "rag_loop w rq i 0 = (None, [])"
| "rag_loop w rq i (Suc n) =
     (case rag_attempt w i rq of
        Inr (Some v) \<Rightarrow> (Some v, [Post rq])
      | Inr None \<Rightarrow> (case rag_loop w rq (Suc i) n of (r, evs) \<Rightarrow> (r, Post rq # evs))
      | Inl e \<Rightarrow> (case rag_loop w rq (Suc i) n of (r, evs) \<Rightarrow> (r, Post rq # Sleep # evs)))"

text \<open>
  \<open>rag_search\<close>. The request body is built before the loop, and with it \<open>int(top_k)\<close> and
  \<open>float(threshold)\<close> are evaluated outside the \<open>try\<close>: what they raise leaves the function.
\<close>

definition rag_search ::
  "world \<Rightarrow> pystr \<Rightarrow> json \<Rightarrow> json \<Rightarrow> json \<Rightarrow> json option \<Rightarrow> (exn + json) \<times> event list" where
  "rag_search w query top_k threshold include_text filters =
     (if \<not> requests_installed w then (Inr (JArr []), [])
      else (case py_int w top_k of
              Inl e \<Rightarrow> (Inl e, [])
            | Inr k \<Rightarrow>
                (case py_float w threshold of
                   Inl e \<Rightarrow> (Inl e, [])
                 | Inr t \<Rightarrow>
                     (case rag_loop w (search_request w query k t (truthy include_text) filters)
                             0 2 of
                        (Some v, evs) \<Rightarrow> (Inr v, evs)
                      | (None, evs) \<Rightarrow> (Inr (JArr []), evs @ log w)))))"

subsection \<open>The prompt composer\<close>

text \<open>The persona of the system message.\<close>

definition SYSTEM_HE :: pystr where
  "SYSTEM_HE =
     [1488, 1514, 1492, 32, 1502, 1493, 1502, 1495, 1492, 32, 1512, 1489, 45, 1514, 1495,
      1493, 1502, 1497, 32, 1489, 1502, 1511, 1512, 1511, 1506, 1497, 1503, 32, 1506, 1489,
      1493, 1512, 32, 76, 79, 84, 76, 46, 10, 1492, 1514, 1488, 1501, 32, 1488, 1514, 32,
      1492, 1499, 1493, 1489, 1506, 32, 1492, 1502, 1511, 1510, 1493, 1506, 1497, 32, 1500,
      1514, 1493, 1499, 1503, 32, 1492, 1513, 1488, 1500, 1492, 58, 10, 45, 32, 1513, 1502,
      1488, 1497, 32, 1502, 1511, 1512, 1511, 1506, 1497, 1503, 58, 32, 1492, 1506, 1512,
      1499, 1493, 1514, 32, 1513, 1493, 1493, 1497, 44, 32, 1506, 1505, 1511, 1488, 1493,
      1514, 32, 1492, 1513, 1493, 1493, 1488, 1492, 44, 32, 1514, 1511, 1497, 1504, 1492,
      32, 1513, 1502, 1488, 1497, 1514, 46, 10, 45, 32, 1488, 1491, 1512, 1497, 1499, 1500,
      47, 1502, 1514, 1499, 1504, 1503, 58, 32, 1497, 1497, 1506, 1493, 1491, 1497, 32,
      1511, 1512, 1511, 1506, 44, 32, 1511, 1493, 1493, 1497, 32, 1489, 1504, 1497, 1497,
      1503, 44, 32, 1494, 1499, 1493, 1497, 1493, 1514, 32, 1489, 1504, 1497, 1497, 1492,
      44, 32, 1514, 1489, 34, 1506, 1493, 1514, 46, 10, 45, 32, 1506, 1493, 34, 1491, 32,
      1502, 1511, 1512, 1511, 1506, 1497, 1503, 47, 1514, 1499, 1504, 1493, 1503, 58, 32,
      1492, 1497, 1514, 1512, 1497, 1501, 44, 32, 1495, 1512, 1497, 1490, 1493, 1514, 44,
      32, 1492, 1500, 1497, 1499, 1497, 1501, 32, 1505, 1496, 1496, 1493, 1496, 1493, 1512,
      1497, 1497, 1501, 44, 32, 1505, 1497, 1499, 1493, 1504, 1497, 1501, 32, 1502, 1513,
      1508, 1496, 1497, 1497, 1501, 46, 10, 45, 32, 1502, 1493, 1491, 1491, 47, 1511, 1491,
      1505, 1496, 1512, 58, 32, 1490, 1493, 1513, 1497, 1501, 47, 1495, 1500, 1511, 1493,
      1514, 44, 32, 1502, 1491, 1497, 1491, 1493, 1514, 44, 32, 1502, 1508, 1493, 1514, 46,
      10, 45, 32, 1502, 1497, 1505, 1493, 1497, 32, 1502, 1511, 1512, 1511, 1506, 1497,
      1503, 58, 32, 1502, 1505, 32, 1512, 1499, 1497, 1513, 1492, 44, 32, 1513, 1489, 1495,
      44, 32, 1492, 1497, 1496, 1500, 1497, 32, 1492, 1513, 1489, 1495, 1492, 46, 10, 1499,
      1500, 32, 1514, 1513, 1493, 1489, 1492, 32, 1514, 1497, 1513, 1506, 1503, 32, 1506,
      1500, 32, 1502, 1511, 1493, 1512, 1493, 1514, 32, 1513, 1504, 1513, 1500, 1508, 1493,
      32, 1502, 1492, 1502, 1488, 1490, 1512, 1497, 1501, 32, 40, 82, 65, 71, 41, 46, 32,
      1499, 1488, 1513, 1512, 32, 1488, 1497, 1503, 32, 1512, 1488, 1497, 1492, 32, 1502,
      1505, 1508, 1511, 1514, 44, 32, 1499, 1514, 1493, 1489, 58, 32, 39, 1506, 1500, 32,
      1508, 1497, 32, 1492, 1497, 1491, 1493, 1506, 32, 1500, 1497, 32, 1499, 1506, 1514,
      44, 32, 1497, 1497, 1514, 1499, 1503, 32, 1495, 1493, 1505, 1512, 32, 1488, 1493, 32,
      1513, 1497, 1504, 1493, 1497, 32, 1489, 1502, 1497, 1491, 1506, 39, 46, 10, 1488,
      1500, 32, 1514, 1502, 1510, 1497, 1488, 32, 1506, 1493, 1489, 1491, 1493, 1514, 46,
      32, 1499, 1514, 1493, 1489, 32, 1506, 1489, 1512, 1497, 1514, 32, 1502, 1511, 1510,
      1493, 1506, 1497, 1514, 32, 1493, 1514, 1502, 1510, 1497, 1514, 1497, 1514, 44, 32,
      1493, 1492, 1493, 1505, 1507, 32, 1489, 1505, 1493, 1490, 1512, 1497, 1497, 1501, 32,
      1513, 1502, 1493, 1514, 32, 1511, 1489, 1510, 1497, 1501, 47, 1502, 1505, 1502, 1499,
      1497, 1501, 32, 1499, 1502, 1511, 1493, 1512, 1493, 1514, 32, 1492, 1497, 1499, 1503,
      32, 1513, 1512, 1500, 1493, 1493, 1504, 1496, 1497, 46, 10, 1492, 1493, 1505, 1507,
      32, 39, 1492, 1505, 1514, 1497, 1497, 1490, 1493, 1497, 1493, 1514, 39, 32, 1489,
      1505, 1493, 1507, 32, 1489, 1502, 1511, 1512, 1492, 32, 1513, 1500, 32, 1488, 1497,
      45, 1493, 1491, 1488, 1493, 1514, 32, 1488, 1493, 32, 1513, 1493, 1504, 1493, 1514,
      32, 1489, 1497, 1503, 32, 1502, 1511, 1493, 1512, 1493, 1514, 46, 10, 1488, 1497,
      1503, 32, 1500, 1512, 1488, 1493, 1514, 32, 1489, 1488, 1502, 1493, 1512, 32, 1497,
      1497, 1506, 1493, 1509, 32, 1502, 1513, 1508, 1496, 1497, 47, 1513, 1502, 1488, 1493,
      1514, 32, 1502, 1495, 1497, 1497, 1489, 46]"

text \<open>
  The user message's template, cut at its three fields \<open>{question}\<close>, \<open>{n}\<close> and
  \<open>{context}\<close>.
\<close>

definition TEMPLATE_HE_0 :: pystr where
  "TEMPLATE_HE_0 = [1513, 1488, 1500, 1492, 58, 32]"

definition TEMPLATE_HE_1 :: pystr where
  "TEMPLATE_HE_1 =
     [10, 10, 1502, 1511, 1496, 1506, 1497, 32, 1512, 1511, 1506, 32, 1512, 1500, 1493,
      1493, 1504, 1496, 1497, 1497, 1501, 32, 40, 1506, 1491, 32]"

definition TEMPLATE_HE_2 :: pystr where
  "TEMPLATE_HE_2 = [41, 58, 10]"

definition TEMPLATE_HE_3 :: pystr where
  "TEMPLATE_HE_3 =
     [10, 10, 1492, 1504, 1495, 1497, 1493, 1514, 32, 1504, 1497, 1505, 1493, 1495, 58, 10,
      45, 32, 1506, 1504, 1492, 32, 1489, 1514, 1502, 1510, 1497, 1514, 44, 32, 1489, 1502,
      1489, 1504, 1492, 32, 1504, 1511, 1493, 1491, 1514, 1497, 32, 1489, 1512, 1493, 1512,
      46, 10, 45, 32, 1510, 1497, 1497, 1503, 32, 1502, 1511, 1493, 1512, 1493, 1514, 32,
      1489, 1511, 1510, 1512, 1492, 32, 40, 1513, 1501, 32, 1511, 1493, 1489, 1509, 47,
      1502, 1505, 1502, 1498, 41, 46, 10, 45, 32, 1488, 1501, 32, 1497, 1513, 32, 1508,
      1506, 1512, 1497, 1501, 47, 1505, 1514, 1497, 1512, 1493, 1514, 32, 1489, 1502, 1511,
      1493, 1512, 1493, 1514, 32, 8211, 32, 1492, 1491, 1490, 1513, 32, 1493, 1492, 1510,
      1506, 32, 1491, 1512, 1498, 32, 1489, 1491, 1497, 1511, 1492, 46, 10]"

definition SOURCE_TAG :: pystr where
  "SOURCE_TAG = [91, 1502, 1511, 1493, 1512, 58, 32]"

definition NO_CONTEXT :: pystr where
  "NO_CONTEXT =
     [91, 1488, 1497, 1503, 32, 1492, 1511, 1513, 1512, 32, 1502, 1502, 1511, 1493, 1512,
      1493, 1514, 93]"

text \<open>A replacement field of an f-string: a \<open>str\<close> as it is, another value through \<open>str()\<close>.\<close>

definition format_value :: "world \<Rightarrow> json \<Rightarrow> pystr" where
  "format_value w v = (case v of JStr s \<Rightarrow> s | _ \<Rightarrow> py_str w v)"

text \<open>The chunk the loop of \<open>build_context\<close> builds from one result.\<close>

definition chunk_of :: "world \<Rightarrow> json \<Rightarrow> exn + pystr" where
  "chunk_of w r =
     ebind (py_get r (ascii ''filename'')) (\<lambda>f.
     ebind (if truthy (opt_json f) then Inr (opt_json f)
            else ebind (py_get r (ascii ''doc_id'')) (\<lambda>d. Inr (py_or d (JStr (ascii ''source''))))) (\<lambda>fn.
     ebind (py_get r (ascii ''excerpt'')) (\<lambda>x.
       case py_or x (JStr []) of
         JStr s \<Rightarrow> Inr (SOURCE_TAG @ format_value w fn @ ascii '']'' @ NL @ strip s @ NL)
       | v \<Rightarrow> Inl (no_attribute v ''strip''))))"

fun build_loop :: "world \<Rightarrow> int \<Rightarrow> json list \<Rightarrow> int \<Rightarrow> pystr list \<Rightarrow> exn + pystr list" where
  "build_loop w max_chars [] used out = Inr out"
| "build_loop w max_chars (r # rs) used out =
     (case chunk_of w r of
        Inl e \<Rightarrow> Inl e
      | Inr chunk \<Rightarrow>
          if used + int (length chunk) > max_chars then Inr out
          else build_loop w max_chars rs (used + int (length chunk)) (out @ [chunk]))"

definition build_context :: "world \<Rightarrow> json \<Rightarrow> int \<Rightarrow> exn + pystr" where
  "build_context w results max_chars =
     (if \<not> truthy results then Inr NO_CONTEXT
      else ebind (py_iter results) (\<lambda>rs.
           ebind (build_loop w max_chars rs 0 []) (\<lambda>out. Inr (join NL out))))"

definition compose_messages :: "world \<Rightarrow> pystr \<Rightarrow> json \<Rightarrow> exn + message list" where
  "compose_messages w question results =
     ebind (build_context w results 3500) (\<lambda>ctx.
     ebind (py_len results) (\<lambda>n.
       Inr [\<lparr>role = ascii ''system'', content = SYSTEM_HE\<rparr>,
            \<lparr>role = ascii ''user'',
             content = TEMPLATE_HE_0 @ question @ TEMPLATE_HE_1 @ str_int n @ TEMPLATE_HE_2 @
                       ctx @ TEMPLATE_HE_3\<rparr>]))"

subsection \<open>The LLM invoker\<close>

definition int_json :: "int option \<Rightarrow> json" where
  "int_json a = (case a of None \<Rightarrow> JNull | Some i \<Rightarrow> JInt i)"

definition usage_json :: "usage_obj option \<Rightarrow> json" where
  "usage_json u =
     (case u of
        None \<Rightarrow> JNull
      | Some x \<Rightarrow> JObj [(ascii ''prompt'', int_json (prompt_tokens x)),
                        (ascii ''completion'', int_json (completion_tokens x))])"

text \<open>A dict display \<open>{k: r.get(k), ...}\<close> over the given keys.\<close>

definition pick :: "pystr list \<Rightarrow> json \<Rightarrow> exn + json" where
  "pick keys r =
     ebind (emap (\<lambda>k. ebind (py_get r k) (\<lambda>v. Inr (k, opt_json v))) keys) (\<lambda>kvs. Inr (JObj kvs))"

text \<open>
  The body of the \<open>try\<close> of \<open>llm_answer\<close> when the flag selects the Responses API: the answer
  text and the usage, or the exception, with the call made.
\<close>

definition primary :: "world \<Rightarrow> message list \<Rightarrow> (exn + pystr \<times> json) \<times> event list" where
  "primary w msgs =
     (case msgs of
        m0 # m1 # _ \<Rightarrow>
          (let text_input = strip (content m0 @ NL @ NL @ content m1) in
           case client w of
             Inl e \<Rightarrow> (Inl e, [])
           | Inr _ \<Rightarrow>
               (case responses_create w (CHAT_MODEL w) text_input of
                  Inl e \<Rightarrow> (Inl e, [ResponsesCreate (CHAT_MODEL w) text_input])
                | Inr resp \<Rightarrow>
                    (Inr (strip (case output_text resp of None \<Rightarrow> [] | Some t \<Rightarrow> t),
                          usage_json (response_usage resp)),
                     [ResponsesCreate (CHAT_MODEL w) text_input])))
      | _ \<Rightarrow> (Inl (Exn ''IndexError'' (ascii ''list index out of range'')), []))"

text \<open>The \<open>except\<close> branch: the Chat Completions call, nothing of it caught.\<close>

definition fallback :: "world \<Rightarrow> message list \<Rightarrow> (exn + pystr \<times> json) \<times> event list" where
  "fallback w msgs =
     (case client w of
        Inl e \<Rightarrow> (Inl e, [])
      | Inr _ \<Rightarrow>
          (case chat_create w (CHAT_MODEL w) msgs of
             Inl e \<Rightarrow> (Inl e, [ChatCreate (CHAT_MODEL w) msgs False])
           | Inr c \<Rightarrow>
               (case choices c of
                  [] \<Rightarrow> Inl (Exn ''IndexError'' (ascii ''list index out of range''))
                | None # _ \<Rightarrow> Inl (no_attribute JNull ''strip'')
                | Some t # _ \<Rightarrow> Inr (strip t, usage_json (completion_usage c)),
                [ChatCreate (CHAT_MODEL w) msgs False])))"

definition llm_answer :: "world \<Rightarrow> pystr \<Rightarrow> json \<Rightarrow> (exn + json) \<times> event list" where
  "llm_answer w question results =
     (case compose_messages w question results of
        Inl e \<Rightarrow> (Inl e, [])
      | Inr msgs \<Rightarrow>
          (case (case (if CHAT_USE_RESP w then primary w msgs
                       else (Inl (Exn ''RuntimeError'' (ascii ''FORCE_FALLBACK'')), [])) of
                   (Inr a, evs) \<Rightarrow> (Inr a, evs)
                 | (Inl _, evs) \<Rightarrow> (case fallback w msgs of (r, evs') \<Rightarrow> (r, evs @ evs'))) of
             (Inl e, evs) \<Rightarrow> (Inl e, evs)
           | (Inr (txt, usage), evs) \<Rightarrow>
               (ebind (ebind (py_iter results)
                         (emap (pick [ascii ''doc_id'', ascii ''filename'', ascii ''score'',
                                      ascii ''excerpt'', ascii ''tags''])))
                  (\<lambda>sources.
                     Inr (JObj [(ascii ''ok'', JBool True), (ascii ''answer'', JStr txt),
                                (ascii ''sources'', JArr sources), (ascii ''tokens'', usage)])),
                evs)))"

text \<open>
  A generator's run: what it yields and the calls it makes, in order. A yielded chunk is
  given by the text whose UTF-8 encoding it is.
\<close>

datatype gen_step = Yield pystr | Effect event

definition error_frame :: "world \<Rightarrow> exn \<Rightarrow> pystr" where
  "error_frame w e =
     NL @ json_dumps w (JObj [(ascii ''type'', JStr (ascii ''error'')),
                              (ascii ''detail'', JStr (exn_text e))]) @ NL"

definition meta_frame :: "world \<Rightarrow> json list \<Rightarrow> pystr" where
  "meta_frame w meta =
     json_dumps w (JObj [(ascii ''type'', JStr (ascii ''meta'')),
                         (ascii ''sources'', JArr meta)]) @ NL"

text \<open>
  The loop over the streamed chunks, inside the \<open>try\<close>: the fragments yielded, then the
  closing newline, or the error line when a chunk has an empty \<open>choices\<close> list or the
  iteration raises.
\<close>

fun relay :: "world \<Rightarrow> stream_chunk list \<Rightarrow> exn option \<Rightarrow> gen_step list" where
  "relay w [] None = [Yield NL]"
| "relay w [] (Some e) = [Yield (error_frame w e)]"
| "relay w (None # cs) fin = relay w cs fin"
| "relay w (Some [] # cs) fin =
     [Yield (error_frame w (Exn ''IndexError'' (ascii ''list index out of range'')))]"
| "relay w (Some (None # _) # cs) fin = relay w cs fin"
| "relay w (Some (Some None # _) # cs) fin = relay w cs fin"
| "relay w (Some (Some (Some txt) # _) # cs) fin =
     (if txt = [] then relay w cs fin else Yield txt # relay w cs fin)"

text \<open>
  \<open>llm_stream\<close>, run to its end: the steps, and the exception that leaves the generator,
  if one does.
\<close>

definition llm_stream :: "world \<Rightarrow> pystr \<Rightarrow> json \<Rightarrow> gen_step list \<times> exn option" where
  "llm_stream w question results =
     (case ebind (py_iter results)
             (emap (pick [ascii ''doc_id'', ascii ''filename'', ascii ''score''])) of
        Inl e \<Rightarrow> ([], Some e)
      | Inr meta \<Rightarrow>
          (case compose_messages w question results of
             Inl e \<Rightarrow> ([Yield (meta_frame w meta)], Some e)
           | Inr msgs \<Rightarrow>
               (case client w of
                  Inl e \<Rightarrow> ([Yield (meta_frame w meta), Yield (error_frame w e)], None)
                | Inr _ \<Rightarrow>
                    (case chat_create_stream w (CHAT_MODEL w) msgs of
                       Inl e \<Rightarrow>
                         ([Yield (meta_frame w meta),
                           Effect (ChatCreate (CHAT_MODEL w) msgs True),
                           Yield (error_frame w e)], None)
                     | Inr (chunks, fin) \<Rightarrow>
                         (Yield (meta_frame w meta) #
                          Effect (ChatCreate (CHAT_MODEL w) msgs True) #
                          relay w chunks fin, None)))))"

subsection \<open>The HTTP handler\<close>

text \<open>
  An inbound request: the path and the parsed query string of its target (what
  \<open>urlparse\<close> and \<open>parse_qs\<close> give), its header fields in order, and the bytes that follow
  the headers on the connection.
\<close>

record request =
  req_path :: pystr
  req_query :: "(pystr \<times> pystr list) list"
  req_headers :: "(pystr \<times> pystr) list"
  rfile :: bytes

text \<open>
  \<open>self.headers.get(name)\<close>: the first field of that name, the case of letters ignored.
\<close>

definition lower_cp :: "nat \<Rightarrow> nat" where
  "lower_cp c = (if 65 \<le> c \<and> c \<le> 90 then c + 32 else c)"

definition headers_get :: "request \<Rightarrow> pystr \<Rightarrow> pystr option" where
  "headers_get rq name =
     map_option snd (find (\<lambda>kv. map lower_cp (fst kv) = map lower_cp name) (req_headers rq))"

text \<open>
  The header fields \<open>_send_headers\<close> sends after the status line, in order; \<open>send_response\<close>
  adds the server's own \<open>Server\<close> and \<open>Date\<close> fields before them.
\<close>

definition header_fields ::
  "world \<Rightarrow> request \<Rightarrow> pystr \<Rightarrow> (pystr \<times> pystr) list \<Rightarrow> (pystr \<times> pystr) list" where
  "header_fields w rq content_type extra =
     (case allow_origin w (headers_get rq (ascii ''Origin'')) of
        None \<Rightarrow> []
      | Some allow \<Rightarrow>
          if allow \<noteq> [] then
            [(ascii ''Access-Control-Allow-Origin'', allow),
             (ascii ''Vary'', ascii ''Origin''),
             (ascii ''Access-Control-Allow-Credentials'', ascii ''true''),
             (ascii ''Access-Control-Allow-Headers'', ascii ''Content-Type, X-LOT-KEY''),
             (ascii ''Access-Control-Allow-Methods'', ascii ''GET, POST, OPTIONS'')]
          else []) @
     [(ascii ''Cache-Control'', ascii ''no-cache''), (ascii ''Content-Type'', content_type)] @
     extra"

definition send_headers ::
  "world \<Rightarrow> request \<Rightarrow> int \<Rightarrow> pystr \<Rightarrow> (pystr \<times> pystr) list \<Rightarrow> event list" where
  "send_headers w rq status content_type extra =
     [SendHeaders status (header_fields w rq content_type extra)]"

definition send_json :: "world \<Rightarrow> request \<Rightarrow> json \<Rightarrow> int \<Rightarrow> event list" where
  "send_json w rq obj status =
     send_headers w rq status (ascii ''application/json'') [] @ [Write (json_dumps w obj)]"

definition auth_ok :: "world \<Rightarrow> request \<Rightarrow> bool" where
  "auth_ok w rq =
     (if CHAT_API_SECRET w = [] then True
      else (case headers_get rq (ascii ''X-LOT-KEY'') of None \<Rightarrow> [] | Some v \<Rightarrow> v) =
           CHAT_API_SECRET w)"

definition unauthorized :: json where
  "unauthorized = JObj [(ascii ''error'', JStr (ascii ''unauthorized''))]"

definition not_found :: json where
  "not_found = JObj [(ascii ''error'', JStr (ascii ''not_found''))]"

definition error_body :: "exn \<Rightarrow> json" where
  "error_body e = JObj [(ascii ''ok'', JBool False), (ascii ''error'', JStr (exn_text e))]"

text \<open>What a handler does, and the exception that leaves it, if one does.\<close>

type_synonym outcome = "event list \<times> exn option"

definition do_OPTIONS :: "world \<Rightarrow> request \<Rightarrow> outcome" where
  "do_OPTIONS w rq = (send_headers w rq 204 (ascii ''application/json'') [], None)"

text \<open>\<open>qs.get(k, [d])[0]\<close>.\<close>

definition first_value :: "request \<Rightarrow> pystr \<Rightarrow> pystr option \<Rightarrow> exn + pystr option" where
  "first_value rq k d =
     (case map_of (req_query rq) k of
        None \<Rightarrow> Inr d
      | Some [] \<Rightarrow> Inl (Exn ''IndexError'' (ascii ''list index out of range''))
      | Some (v # _) \<Rightarrow> Inr (Some v))"

text \<open>
  The three parameters of the streaming route. A parameter that is absent takes the
  configured default, which \<open>int(str(...))\<close> and \<open>float(str(...))\<close> give back unchanged.
\<close>

definition stream_params :: "world \<Rightarrow> request \<Rightarrow> exn + pystr \<times> int \<times> real" where
  "stream_params w rq =
     ebind (first_value rq (ascii ''q'') (Some [])) (\<lambda>q.
     ebind (ebind (first_value rq (ascii ''top_k'') None)
              (\<lambda>v. case v of None \<Rightarrow> Inr (TOP_K_DEFAULT w) | Some t \<Rightarrow> int_of_str w t)) (\<lambda>top_k.
     ebind (ebind (first_value rq (ascii ''threshold'') None)
              (\<lambda>v. case v of None \<Rightarrow> Inr (THRESH_DEFAULT w) | Some t \<Rightarrow> float_of_str w t)) (\<lambda>thr.
       Inr (strip (case q of None \<Rightarrow> [] | Some t \<Rightarrow> t), top_k, thr))))"

text \<open>
  The loop that writes what the generator yields, from the \<open>n\<close>-th write on: the events,
  and whether the generator was run to its end (the loop is left when the pipe is broken,
  and the generator is then not resumed).
\<close>

fun consume :: "nat option \<Rightarrow> nat \<Rightarrow> gen_step list \<Rightarrow> event list \<times> bool" where
  "consume bp n [] = ([], True)"
| "consume bp n (Effect ev # ss) = (case consume bp n ss of (evs, b) \<Rightarrow> (ev # evs, b))"
| "consume bp n (Yield c # ss) =
     (if bp = Some n then ([], False)
      else (case consume bp (Suc n) ss of (evs, b) \<Rightarrow> (Write c # evs, b)))"

definition do_GET :: "world \<Rightarrow> request \<Rightarrow> outcome" where
  "do_GET w rq =
     (if req_path rq = ascii ''/health'' then
        (send_json w rq
           (JObj [(ascii ''ok'', JBool True), (ascii ''time'', JInt (clock w)),
                  (ascii ''port'', JInt (PORT w)), (ascii ''model'', JStr (CHAT_MODEL w)),
                  (ascii ''vs'', JStr (VS_API_BASE w))]) 200, None)
      else if req_path rq = ascii ''/api/chat/stream'' then
        (if \<not> auth_ok w rq then (send_json w rq unauthorized 401, None)
         else (case stream_params w rq of
                 Inl e \<Rightarrow> ([], Some e)
               | Inr (q, top_k, thr) \<Rightarrow>
                   (case rag_search w q (JInt top_k) (JFloat thr) (JBool True) None of
                      (Inl e, evs) \<Rightarrow> (evs, Some e)
                    | (Inr results, evs) \<Rightarrow>
                        (case llm_stream w q results of
                           (steps, fin) \<Rightarrow>
                             (case consume (broken_pipe_at w) 0 steps of
                                (evs', finished) \<Rightarrow>
                                  (evs @
                                   send_headers w rq 200 (ascii ''text/plain; charset=utf-8'')
                                     [(ascii ''Connection'', ascii ''keep-alive'')] @
                                   evs',
                                   if finished then fin else None))))))
      else if req_path rq = ascii ''/chat'' then
        (send_headers w rq 200 (ascii ''text/html; charset=utf-8'') [] @ [Write (CHAT_HTML w)],
         None)
      else (send_json w rq not_found 404, None))"

text \<open>
  \<open>int(self.headers.get("Content-Length", "0"))\<close>: without the field, \<open>int("0")\<close> is 0.
\<close>

definition content_length :: "world \<Rightarrow> request \<Rightarrow> exn + int" where
  "content_length w rq =
     (case headers_get rq (ascii ''Content-Length'') of
        None \<Rightarrow> Inr 0
      | Some v \<Rightarrow> int_of_str w v)"

text \<open>\<open>self.rfile.read(n)\<close>; a negative count reads to the end.\<close>

definition rfile_read :: "request \<Rightarrow> int \<Rightarrow> bytes" where
  "rfile_read rq n = (if n < 0 then rfile rq else take (nat n) (rfile rq))"

text \<open>
  The body of the chat request as parsed: \<open>{}\<close> when the length is 0 (the source then
  parses the literal \<open>b"{}"\<close>) or when nothing was read.
\<close>

definition chat_json :: "world \<Rightarrow> request \<Rightarrow> exn + json" where
  "chat_json w rq =
     ebind (content_length w rq) (\<lambda>n.
       if n = 0 then Inr (JObj [])
       else if rfile_read rq n = [] then Inr (JObj [])
       else ebind (utf8_decode w (rfile_read rq n)) (json_loads w))"

text \<open>\<open>(body.get("message") or "").strip()\<close>.\<close>

definition question_of :: "json \<Rightarrow> exn + pystr" where
  "question_of body =
     ebind (py_get body (ascii ''message'')) (\<lambda>m.
       case py_or m (JStr []) of
         JStr s \<Rightarrow> Inr (strip s)
       | v \<Rightarrow> Inl (no_attribute v ''strip''))"

definition chat_params :: "world \<Rightarrow> json \<Rightarrow> exn + int \<times> real \<times> json" where
  "chat_params w body =
     ebind (ebind (py_get body (ascii ''top_k''))
              (\<lambda>v. case v of None \<Rightarrow> Inr (TOP_K_DEFAULT w) | Some t \<Rightarrow> py_int w t)) (\<lambda>top_k.
     ebind (ebind (py_get body (ascii ''threshold''))
              (\<lambda>v. case v of None \<Rightarrow> Inr (THRESH_DEFAULT w) | Some t \<Rightarrow> py_float w t)) (\<lambda>thr.
     ebind (py_get body (ascii ''filters'')) (\<lambda>f.
       Inr (top_k, thr, py_or f (JObj [])))))"

definition EMPTY_QUESTION :: pystr where
  "EMPTY_QUESTION = [1513, 1488, 1500, 1492, 32, 1512, 1497, 1511, 1492, 46]"

definition empty_answer :: json where
  "empty_answer =
     JObj [(ascii ''ok'', JBool True), (ascii ''answer'', JStr EMPTY_QUESTION),
           (ascii ''sources'', JArr [])]"

text \<open>
  The \<open>try\<close> of the chat route: the exception it raises, if any, and its events, the
  response it sends among them.
\<close>

definition chat_try :: "world \<Rightarrow> request \<Rightarrow> exn option \<times> event list" where
  "chat_try w rq =
     (case chat_json w rq of
        Inl e \<Rightarrow> (Some e, [])
      | Inr body \<Rightarrow>
          (case question_of body of
             Inl e \<Rightarrow> (Some e, [])
           | Inr q \<Rightarrow>
               if q = [] then (None, send_json w rq empty_answer 200)
               else (case chat_params w body of
                       Inl e \<Rightarrow> (Some e, [])
                     | Inr (top_k, thr, filters) \<Rightarrow>
                         (case rag_search w q (JInt top_k) (JFloat thr) (JBool True) (Some filters) of
                            (Inl e, evs) \<Rightarrow> (Some e, evs)
                          | (Inr results, evs) \<Rightarrow>
                              (case llm_answer w q results of
                                 (Inl e, evs') \<Rightarrow> (Some e, evs @ evs')
                               | (Inr answer, evs') \<Rightarrow>
                                   (None, evs @ evs' @ send_json w rq answer 200))))))"

text \<open>
  The headers the upload route forwards: the request's fields as a dict (a repeated name
  keeps its last value), without the key \<open>Host\<close>, the service's key set when configured.
\<close>

definition forward_headers :: "world \<Rightarrow> request \<Rightarrow> (pystr \<times> pystr) list" where
  "forward_headers w rq =
     (let headers = AList.delete (ascii ''Host'')
                      (foldl (\<lambda>d kv. AList.update (fst kv) (snd kv) d) [] (req_headers rq))
      in if VS_API_KEY w \<noteq> [] then AList.update (ascii ''X-LOT-KEY'') (VS_API_KEY w) headers
         else headers)"

definition index_request :: "world \<Rightarrow> request \<Rightarrow> int \<Rightarrow> out_request" where
  "index_request w rq n =
     \<lparr>post_url = VS_API_BASE w @ ascii ''/api/vs/index'',
      post_headers = forward_headers w rq,
      post_data = Raw (if n \<noteq> 0 then rfile_read rq n else []),
      post_timeout = TIMEOUT_S w\<rparr>"

definition upload_try :: "world \<Rightarrow> request \<Rightarrow> exn option \<times> event list" where
  "upload_try w rq =
     (case content_length w rq of
        Inl e \<Rightarrow> (Some e, [])
      | Inr n \<Rightarrow>
          (case requests_post w 0 (index_request w rq n) of
             Inl e \<Rightarrow> (Some e, [Post (index_request w rq n)])
           | Inr r \<Rightarrow>
               (case json_of r of
                  Inl e \<Rightarrow> (Some e, [Post (index_request w rq n)])
                | Inr j \<Rightarrow>
                    (None, Post (index_request w rq n) # send_json w rq j (status_code r)))))"

definition do_POST :: "world \<Rightarrow> request \<Rightarrow> outcome" where
  "do_POST w rq =
     (if req_path rq = ascii ''/api/chat'' then
        (if \<not> auth_ok w rq then (send_json w rq unauthorized 401, None)
         else (case chat_try w rq of
                 (None, evs) \<Rightarrow> (evs, None)
               | (Some e, evs) \<Rightarrow>
                   (evs @ [PrintExc e] @ send_json w rq (error_body e) 500, None)))
      else if req_path rq = ascii ''/api/upload'' then
        (if \<not> requests_installed w then
           (send_json w rq
              (error_body (Exn ''RuntimeError'' (ascii ''requests not installed''))) 500, None)
         else (case upload_try w rq of
                 (None, evs) \<Rightarrow> (evs, None)
               | (Some e, evs) \<Rightarrow> (evs @ send_json w rq (error_body e) 500, None)))
      else (send_json w rq not_found 404, None))"

datatype http_method = GET | POST | OPTIONS

definition handle :: "world \<Rightarrow> http_method \<Rightarrow> request \<Rightarrow> outcome" where
  "handle w m rq = (case m of GET \<Rightarrow> do_GET w rq | POST \<Rightarrow> do_POST w rq | OPTIONS \<Rightarrow> do_OPTIONS w rq)"

section \<open>The planning agent's lookup tools (taba_agent.py)\<close>

definition BEER_SHEVA :: pystr where
  "BEER_SHEVA = [1489, 1488, 1512, 32, 1513, 1489, 1506]"

definition INDUSTRIAL_ZONE :: pystr where
  "INDUSTRIAL_ZONE = [1488, 1494, 1493, 1512, 32, 1514, 1506, 1513, 1497, 1497, 1492]"

definition PARCELS_ANSWER :: pystr where
  "PARCELS_ANSWER =
     [1492, 1502, 1490, 1512, 1513, 1497, 1501, 32, 49, 50, 51, 44, 32, 52, 53, 54, 32,
      1504, 1502, 1510, 1488, 1497, 1501, 32, 1489, 1488, 1494, 1493, 1512, 32, 1514, 1506,
      1513, 1497, 1497, 1492, 32, 1489, 1489, 1488, 1512, 32, 1513, 1489, 1506, 44, 32,
      1514, 1499, 1504, 1497, 1493, 1514, 32, 1489, 1504, 1497, 1497, 1503, 32, 1506, 1497,
      1512, 58, 32, 49, 48, 48, 47, 49, 44, 32, 50, 48, 48, 47, 50, 46]"

definition PARCELS_NOT_FOUND :: pystr where
  "PARCELS_NOT_FOUND =
     [1500, 1488, 32, 1504, 1502, 1510, 1488, 1493, 32, 1502, 1490, 1512, 1513, 1497, 1501,
      32, 1492, 1514, 1493, 1488, 1502, 1497, 1501, 32, 1500, 1511, 1512, 1497, 1496, 1512,
      1497, 1493, 1504, 1497, 1501, 46]"

definition PLAN_100_1 :: pystr where
  "PLAN_100_1 = ascii ''100/1''"

definition PLAN_ANSWER :: pystr where
  "PLAN_ANSWER =
     [1514, 1499, 1504, 1497, 1514, 32, 49, 48, 48, 47, 49, 32, 1502, 1497, 1493, 1506,
      1491, 1514, 32, 1500, 1488, 1494, 1493, 1512, 32, 1514, 1506, 1513, 1497, 1497, 1492,
      44, 32, 1502, 1488, 1508, 1513, 1512, 1514, 32, 53, 48, 48, 37, 32, 1494, 1499, 1493,
      1497, 1493, 1514, 32, 1489, 1504, 1497, 1492, 44, 32, 1502, 1496, 1512, 1493, 1514,
      58, 32, 1492, 1512, 1495, 1489, 1514, 32, 1488, 1494, 1493, 1512, 32, 1514, 1506,
      1513, 1497, 1497, 1492, 32, 1511, 1497, 1497, 1501, 46]"

definition PLAN_NOT_FOUND :: pystr where
  "PLAN_NOT_FOUND =
     [1500, 1488, 32, 1504, 1502, 1510, 1488, 1493, 32, 1508, 1512, 1496, 1497, 1501, 32,
      1500, 1514, 1499, 1504, 1497, 1514, 32, 1494, 1493, 46]"

definition get_parcels_by_zoning :: "pystr \<Rightarrow> pystr \<Rightarrow> pystr" where
  "get_parcels_by_zoning city zoning_type =
     (if city = BEER_SHEVA \<and> zoning_type = INDUSTRIAL_ZONE then PARCELS_ANSWER
      else PARCELS_NOT_FOUND)"

definition get_plan_details :: "pystr \<Rightarrow> pystr" where
  "get_plan_details plan_number =
     (if plan_number = PLAN_100_1 then PLAN_ANSWER else PLAN_NOT_FOUND)"

section \<open>Observing a run\<close>

text \<open>The outbound POSTs among the events of a run.\<close>

fun posts :: "event list \<Rightarrow> out_request list" where
  "posts [] = []"
| "posts (Post r # evs) = r # posts evs"
| "posts (_ # evs) = posts evs"

text \<open>
  An attempt the retry loop counts as failed: a transport error, a status from 400 to 599,
  or a body whose success flag is absent or false.
\<close>

definition failed_attempt :: "exn + reply \<Rightarrow> bool" where
  "failed_attempt a =
     (case a of
        Inl e \<Rightarrow> True
      | Inr r \<Rightarrow>
          (400 \<le> status_code r \<and> status_code r < 600) \<or>
          (case json_of r of
             Inr (JObj d) \<Rightarrow>
               map_of d (ascii ''ok'') = None \<or> map_of d (ascii ''ok'') = Some (JBool False)
           | _ \<Rightarrow> False))"

text \<open>
  A failed attempt in the words of the specification: a transport error, a status that is
  not 2xx, or a body whose success flag is absent or false.
\<close>

definition spec_failed_attempt :: "exn + reply \<Rightarrow> bool" where
  "spec_failed_attempt a =
     (case a of
        Inl e \<Rightarrow> True
      | Inr r \<Rightarrow>
          status_code r < 200 \<or> 300 \<le> status_code r \<or>
          (case json_of r of
             Inr (JObj d) \<Rightarrow>
               map_of d (ascii ''ok'') = None \<or> map_of d (ascii ''ok'') = Some (JBool False)
           | _ \<Rightarrow> False))"

text \<open>
  A configuration to evaluate the code on: nothing answers, neither the vector store nor
  the model provider.
\<close>

definition demo_world :: world where
  "demo_world =
     \<lparr>OPENAI_API_KEY = ascii ''sk-demo'', CHAT_MODEL = ascii ''gpt-4o-mini'', CHAT_USE_RESP = True,
      PORT = 8004, VS_API_BASE = ascii ''http://localhost:8003'', VS_API_KEY = [],
      CHAT_API_SECRET = [], CORS_ALLOW_ORIGINS = [], LOG_LEVEL = ascii ''INFO'', TIMEOUT_S = 60,
      TOP_K_DEFAULT = 5, THRESH_DEFAULT = 0.2, CHAT_HTML = [], openai_installed = True,
      requests_installed = True,
      json_dumps = (\<lambda>j. []),
      json_loads = (\<lambda>s. Inl (Exn ''JSONDecodeError'' (ascii ''Expecting value''))),
      utf8_decode = (\<lambda>b. Inr (map unat b)),
      py_str = (\<lambda>j. []),
      int_of_str = (\<lambda>s. if s = ascii ''3'' then Inr 3 else Inl (Exn ''ValueError'' (ascii ''invalid literal''))),
      float_of_str = (\<lambda>s. Inl (Exn ''ValueError'' (ascii ''could not convert''))),
      float_of_int =
        (\<lambda>i. if \<bar>i\<bar> < 2 ^ 1024 then Inr (of_int i)
             else Inl (Exn ''OverflowError'' (ascii ''int too large to convert to float''))),
      clock = 0,
      requests_post = (\<lambda>i rq. Inl (Exn ''ConnectionError'' (ascii ''connection refused''))),
      responses_create = (\<lambda>m t. Inl (Exn ''APIError'' (ascii ''boom''))),
      chat_create = (\<lambda>m ms. Inl (Exn ''APIError'' (ascii ''bang''))),
      chat_create_stream = (\<lambda>m ms. Inl (Exn ''APIError'' (ascii ''bang''))),
      broken_pipe_at = None\<rparr>"

text \<open>A result with a one-letter file name and no excerpt, and the chunk it gives.\<close>

definition tiny_result :: json where
  "tiny_result = JObj [(ascii ''filename'', JStr (ascii ''a''))]"

definition tiny_chunk :: pystr where
  "tiny_chunk = SOURCE_TAG @ ascii ''a]'' @ NL @ NL"

text \<open>
  The bound of the specification on the context, read at its most generous: the string is
  no longer than the budget plus the length of one of the chunks of the results.
\<close>

definition one_chunk_allowance :: "world \<Rightarrow> json list \<Rightarrow> int \<Rightarrow> bool" where
  "one_chunk_allowance w rs max_chars =
     (case build_context w (JArr rs) max_chars of
        Inl e \<Rightarrow> False
      | Inr s \<Rightarrow>
          (\<exists>r \<in> set rs. case chunk_of w r of
                            Inl e \<Rightarrow> False
                          | Inr c \<Rightarrow> int (length s) \<le> max_chars + int (length c)))"

text \<open>
  A vector store that answers every search with status 300 and a body that carries the
  success flag and one result.
\<close>

definition multiple_choices_world :: world where
  "multiple_choices_world =
     demo_world\<lparr>requests_post :=
       (\<lambda>i rq. Inr \<lparr>status_code = 300, reason = ascii ''Multiple Choices'',
                       reply_url = post_url rq,
                       json_of = Inr (JObj [(ascii ''ok'', JBool True),
                                            (ascii ''results'', JArr [tiny_result])])\<rparr>)\<rparr>"

text \<open>
  The responses among the events of a run, each with its status and the header fields the
  handler sends; and the values a header list gives to a field name.
\<close>

fun responses :: "event list \<Rightarrow> (int \<times> (pystr \<times> pystr) list) list" where
  "responses [] = []"
| "responses (SendHeaders status hs # evs) = (status, hs) # responses evs"
| "responses (_ # evs) = responses evs"

definition header_values :: "pystr \<Rightarrow> (pystr \<times> pystr) list \<Rightarrow> pystr list" where
  "header_values name hs = map snd (filter (\<lambda>kv. fst kv = name) hs)"

text \<open>
  A configuration with one allowed origin, and a health check that may carry an
  \<open>Origin\<close> field.
\<close>

definition cors_world :: world where
  "cors_world = demo_world\<lparr>CORS_ALLOW_ORIGINS := ascii ''https://good.example''\<rparr>"

definition health_request :: "pystr option \<Rightarrow> request" where
  "health_request origin =
     \<lparr>req_path = ascii ''/health'', req_query = [],
      req_headers = (case origin of None \<Rightarrow> [] | Some og \<Rightarrow> [(ascii ''Origin'', og)]),
      rfile = []\<rparr>"

text \<open>The calls to the vector store and to the model provider among the events of a run.\<close>

fun outbound :: "event list \<Rightarrow> event list" where
  "outbound [] = []"
| "outbound (Post r # evs) = Post r # outbound evs"
| "outbound (ResponsesCreate m t # evs) = ResponsesCreate m t # outbound evs"
| "outbound (ChatCreate m ms b # evs) = ChatCreate m ms b # outbound evs"
| "outbound (_ # evs) = outbound evs"

text \<open>
  An upload of three bytes that carries no \<open>X-LOT-KEY\<close> field; a vector store that accepts
  it, behind a service whose shared secret is set; and a gateway that answers 502 with a
  body that is not JSON.
\<close>

definition upload_request :: request where
  "upload_request =
     \<lparr>req_path = ascii ''/api/upload'', req_query = [],
      req_headers = [(ascii ''Host'', ascii ''chat.example''), (ascii ''Content-Length'', ascii ''3'')],
      rfile = [1, 2, 3]\<rparr>"

definition accepted_reply :: "out_request \<Rightarrow> reply" where
  "accepted_reply rq =
     \<lparr>status_code = 200, reason = ascii ''OK'', reply_url = post_url rq,
      json_of = Inr (JObj [(ascii ''ok'', JBool True)])\<rparr>"

definition secret_world :: world where
  "secret_world =
     demo_world\<lparr>CHAT_API_SECRET := ascii ''s3cret'',
                requests_post := (\<lambda>i rq. Inr (accepted_reply rq))\<rparr>"

definition bad_gateway_reply :: "out_request \<Rightarrow> reply" where
  "bad_gateway_reply rq =
     \<lparr>status_code = 502, reason = ascii ''Bad Gateway'', reply_url = post_url rq,
      json_of = Inl (Exn ''JSONDecodeError'' (ascii ''Expecting value: line 1 column 1 (char 0)''))\<rparr>"

definition bad_gateway_world :: world where
  "bad_gateway_world = demo_world\<lparr>requests_post := (\<lambda>i rq. Inr (bad_gateway_reply rq))\<rparr>"


text \<open>What a generator's run yields, in order.\<close>

fun yields :: "gen_step list \<Rightarrow> pystr list" where
  "yields [] = []"
| "yields (Yield c # ss) = c # yields ss"
| "yields (Effect ev # ss) = yields ss"









fun closing :: "world \<Rightarrow> stream_chunk list \<Rightarrow> exn option \<Rightarrow> pystr" where
  "closing w [] None = NL"
| "closing w [] (Some e) = error_frame w e"
| "closing w (Some [] # cs) fin =
     error_frame w (Exn ''IndexError'' (ascii ''list index out of range''))"
| "closing w (_ # cs) fin = closing w cs fin"

section \<open>Properties\<close>

lemma ascii_eq_iff [simp]: "ascii a = ascii b \<longleftrightarrow> a = b"
  unfolding ascii_def by (rule inj_map_eq_map) (simp add: inj_on_def)

lemma ascii_Nil_iff [simp]: "ascii a = [] \<longleftrightarrow> a = []"
  by (simp add: ascii_def)

subsection \<open>The lookup tools\<close>

lemma parcels_answers_differ: "PARCELS_ANSWER \<noteq> PARCELS_NOT_FOUND"
  by (simp add: PARCELS_ANSWER_def PARCELS_NOT_FOUND_def)

lemma plan_answers_differ: "PLAN_ANSWER \<noteq> PLAN_NOT_FOUND"
  by (simp add: PLAN_ANSWER_def PLAN_NOT_FOUND_def)

text \<open>
  Claim C9. Both lookup tools are total functions of their arguments.
  \<open>get_parcels_by_zoning\<close> gives its hardcoded parcel-and-plan answer exactly when the
  city and the zoning type are the two hardcoded strings, and the not-found string for
  every other pair; \<open>get_plan_details\<close> gives its hardcoded summary exactly when the plan
  number is \<open>100/1\<close>, and the not-found string for every other input.
\<close>

theorem lookup_tools_hardcoded:
  "(get_parcels_by_zoning city zoning_type = PARCELS_ANSWER
      \<longleftrightarrow> city = BEER_SHEVA \<and> zoning_type = INDUSTRIAL_ZONE) \<and>
   (get_parcels_by_zoning city zoning_type = PARCELS_NOT_FOUND
      \<longleftrightarrow> \<not> (city = BEER_SHEVA \<and> zoning_type = INDUSTRIAL_ZONE)) \<and>
   (get_plan_details plan_number = PLAN_ANSWER \<longleftrightarrow> plan_number = PLAN_100_1) \<and>
   (get_plan_details plan_number = PLAN_NOT_FOUND \<longleftrightarrow> plan_number \<noteq> PLAN_100_1)"
  using parcels_answers_differ plan_answers_differ
  by (auto simp: get_parcels_by_zoning_def get_plan_details_def)

subsection \<open>The RAG client\<close>

lemma posts_append: "posts (xs @ ys) = posts xs @ posts ys"
  by (induction xs rule: posts.induct) auto

lemma posts_log: "posts (log w) = []"
  by (simp add: log_def)

lemma rag_attempt_failed:
  "failed_attempt (requests_post w i rq) \<Longrightarrow> rag_attempt w i rq \<noteq> Inr (Some v)"
  by (auto simp: failed_attempt_def rag_attempt_def raise_for_status_def ebind_def py_get_def
      opt_json_def split: sum.splits option.splits json.splits if_splits)

lemma rag_loop_two:
  "rag_loop w rq 0 2 =
     (case rag_attempt w 0 rq of
        Inr (Some v) \<Rightarrow> (Some v, [Post rq])
      | Inr None \<Rightarrow>
          (case rag_attempt w (Suc 0) rq of
             Inr (Some v) \<Rightarrow> (Some v, [Post rq, Post rq])
           | Inr None \<Rightarrow> (None, [Post rq, Post rq])
           | Inl e \<Rightarrow> (None, [Post rq, Post rq, Sleep]))
      | Inl e \<Rightarrow>
          (case rag_attempt w (Suc 0) rq of
             Inr (Some v) \<Rightarrow> (Some v, [Post rq, Sleep, Post rq])
           | Inr None \<Rightarrow> (None, [Post rq, Sleep, Post rq])
           | Inl e \<Rightarrow> (None, [Post rq, Sleep, Post rq, Sleep])))"
  by (simp add: numeral_2_eq_2 split: sum.splits option.splits)

lemma rag_loop_posts:
  "posts (snd (rag_loop w rq 0 2)) = [rq] \<or> posts (snd (rag_loop w rq 0 2)) = [rq, rq]"
  unfolding rag_loop_two by (simp split: sum.splits option.splits)

lemma rag_loop_failed:
  "failed_attempt (requests_post w 0 rq) \<Longrightarrow> failed_attempt (requests_post w (Suc 0) rq) \<Longrightarrow>
   fst (rag_loop w rq 0 2) = None"
  using rag_attempt_failed[of w 0 rq] rag_attempt_failed[of w "Suc 0" rq]
  unfolding rag_loop_two by (simp split: sum.splits option.splits)

lemma rag_search_converted:
  assumes "requests_installed w" "py_int w top_k = Inr k" "py_float w threshold = Inr t"
  shows "rag_search w q top_k threshold inc f =
           (case rag_loop w (search_request w q k t (truthy inc) f) 0 2 of
              (Some v, evs) \<Rightarrow> (Inr v, evs)
            | (None, evs) \<Rightarrow> (Inr (JArr []), evs @ log w))"
  using assms by (simp add: rag_search_def)

text \<open>
  Claim C2, as amended. \<open>rag_search\<close> posts to the vector store at most twice. Without the
  \<open>requests\<close> package it returns the empty list at once. Otherwise it first converts \<open>top_k\<close>
  with \<open>int\<close> and the threshold with \<open>float\<close>, outside the \<open>try\<close>, and what a conversion raises
  leaves the function. When both conversions succeed it raises nothing, it posts the same
  search request once or twice, and when both attempts fail (a transport error, a status
  from 400 to 599, or a body whose success flag is absent or false) it returns the empty
  list.
\<close>

theorem rag_search_degrades:
  "length (posts (snd (rag_search w q top_k threshold inc f))) \<le> 2 \<and>
   (\<not> requests_installed w \<longrightarrow> rag_search w q top_k threshold inc f = (Inr (JArr []), [])) \<and>
   (requests_installed w \<and> py_int w top_k = Inl e
      \<longrightarrow> rag_search w q top_k threshold inc f = (Inl e, [])) \<and>
   (requests_installed w \<and> py_int w top_k = Inr k \<and> py_float w threshold = Inl e
      \<longrightarrow> rag_search w q top_k threshold inc f = (Inl e, [])) \<and>
   (py_int w top_k = Inr k \<and> py_float w threshold = Inr t \<longrightarrow>
      (\<exists>v. fst (rag_search w q top_k threshold inc f) = Inr v) \<and>
      (\<exists>n\<le>2. posts (snd (rag_search w q top_k threshold inc f)) =
               replicate n (search_request w q k t (truthy inc) f)) \<and>
      (failed_attempt (requests_post w 0 (search_request w q k t (truthy inc) f)) \<and>
       failed_attempt (requests_post w 1 (search_request w q k t (truthy inc) f))
         \<longrightarrow> fst (rag_search w q top_k threshold inc f) = Inr (JArr [])))"
proof -
  let ?r = "rag_search w q top_k threshold inc f"
  have off: "?r = (Inr (JArr []), [])" if "\<not> requests_installed w"
    using that by (simp add: rag_search_def)
  have conv: "
      (\<exists>v. fst ?r = Inr v) \<and>
      (\<exists>n\<le>2. posts (snd ?r) = replicate n (search_request w q k t (truthy inc) f)) \<and>
      (failed_attempt (requests_post w 0 (search_request w q k t (truthy inc) f)) \<and>
       failed_attempt (requests_post w 1 (search_request w q k t (truthy inc) f))
         \<longrightarrow> fst ?r = Inr (JArr []))"
    if c: "py_int w top_k = Inr k" "py_float w threshold = Inr t" for k t
  proof (cases "requests_installed w")
    case False
    have "replicate 0 (search_request w q k t (truthy inc) f) = []" by simp
    with off[OF False] show ?thesis by (metis fst_conv snd_conv posts.simps(1) le0)
  next
    case True
    let ?rq = "search_request w q k t (truthy inc) f"
    note r = rag_search_converted[OF True c, of q inc f]
    have a: "\<exists>v. fst ?r = Inr v"
      unfolding r by (simp split: prod.splits option.splits)
    have p: "posts (snd ?r) = posts (snd (rag_loop w ?rq 0 2))"
      unfolding r by (simp add: posts_append posts_log split: prod.splits option.splits)
    have "posts (snd ?r) = [?rq] \<or> posts (snd ?r) = [?rq, ?rq]"
      using rag_loop_posts[of w ?rq] p by simp
    then have b: "\<exists>n\<le>2. posts (snd ?r) = replicate n ?rq"
    proof
      assume "posts (snd ?r) = [?rq]"
      then show ?thesis by (intro exI[of _ 1]) simp
    next
      assume "posts (snd ?r) = [?rq, ?rq]"
      then show ?thesis by (intro exI[of _ 2]) (simp add: numeral_2_eq_2)
    qed
    have d: "fst ?r = Inr (JArr [])"
      if "failed_attempt (requests_post w 0 ?rq)" "failed_attempt (requests_post w 1 ?rq)"
      using rag_loop_failed[of w ?rq] that unfolding r
      by (cases "rag_loop w ?rq 0 2") auto
    from a b d show ?thesis by blast
  qed
  have len: "length (posts (snd ?r)) \<le> 2"
  proof (cases "requests_installed w")
    case False
    with off show ?thesis by simp
  next
    case True
    show ?thesis
    proof (cases "py_int w top_k")
      case (Inl e)
      with True show ?thesis by (simp add: rag_search_def)
    next
      case (Inr k)
      show ?thesis
      proof (cases "py_float w threshold")
        case (Inl e)
        with True \<open>py_int w top_k = Inr k\<close> show ?thesis by (simp add: rag_search_def)
      next
        case Inr2: (Inr t)
        from conv[OF Inr Inr2] obtain n where
          "n \<le> 2" "posts (snd ?r) = replicate n (search_request w q k t (truthy inc) f)"
          by blast
        then show ?thesis by simp
      qed
    qed
  qed
  have e1: "?r = (Inl e, [])" if "requests_installed w \<and> py_int w top_k = Inl e"
    using that by (simp add: rag_search_def)
  have e2: "?r = (Inl e, [])"
    if "requests_installed w \<and> py_int w top_k = Inr k \<and> py_float w threshold = Inl e"
    using that by (simp add: rag_search_def)
  from len off e1 e2 conv show ?thesis by blast
qed

theorem rag_search_degrades_witness:
  "py_int demo_world (JInt 5) = Inr 5 \<and>
   py_float demo_world (JFloat 0.2) = Inr 0.2 \<and>
   failed_attempt (requests_post demo_world 0
      (search_request demo_world (ascii ''q'') 5 0.2 (truthy (JBool True)) None)) \<and>
   failed_attempt (requests_post demo_world 1
      (search_request demo_world (ascii ''q'') 5 0.2 (truthy (JBool True)) None)) \<and>
   fst (rag_search demo_world (ascii ''q'') (JInt 5) (JFloat 0.2) (JBool True) None) =
     Inr (JArr [])"
  using rag_search_degrades[of demo_world "ascii ''q''" "JInt 5" "JFloat 0.2" "JBool True" None
      "Exn [] []" 5 "0.2"]
  by (simp add: failed_attempt_def demo_world_def py_int_def py_float_def)

text \<open>
  A status that is not 2xx is not always a failed attempt: a reply with status 300 whose
  body carries the success flag is taken as the answer, so two such replies do not give
  the empty list. And a threshold that \<open>float\<close> cannot convert makes \<open>rag_search\<close> raise.
\<close>

theorem rag_search_counterexample:
  "\<not> (spec_failed_attempt (requests_post multiple_choices_world 0
          (search_request multiple_choices_world (ascii ''q'') 5 0.2 True None)) \<and>
       spec_failed_attempt (requests_post multiple_choices_world 1
          (search_request multiple_choices_world (ascii ''q'') 5 0.2 True None))
       \<longrightarrow> fst (rag_search multiple_choices_world (ascii ''q'') (JInt 5) (JFloat 0.2)
                  (JBool True) None) = Inr (JArr [])) \<and>
   fst (rag_search demo_world (ascii ''q'') (JInt 5) (JInt (2 ^ 1024)) (JBool True) None) =
     Inl (Exn ''OverflowError'' (ascii ''int too large to convert to float''))"
  by (simp add: spec_failed_attempt_def multiple_choices_world_def demo_world_def
      rag_search_def rag_loop_two rag_attempt_def raise_for_status_def ebind_def py_get_def
      opt_json_def py_int_def py_float_def)

subsection \<open>The prompt composer\<close>

lemma length_join:
  "cs \<noteq> [] \<Longrightarrow>
   int (length (join NL cs)) = (\<Sum>c\<leftarrow>cs. int (length c)) + int (length cs) - 1"
  by (induction NL cs rule: join.induct) (auto simp: NL_def)

lemma build_loop_prefix:
  "list_all2 (\<lambda>r c. chunk_of w r = Inr c) rs cs \<Longrightarrow>
   \<exists>k\<le>length cs.
     build_loop w m rs used out = Inr (out @ take k cs) \<and>
     (0 < k \<longrightarrow> used + (\<Sum>c\<leftarrow>take k cs. int (length c)) \<le> m) \<and>
     (k < length cs \<longrightarrow> m < used + (\<Sum>c\<leftarrow>take (Suc k) cs. int (length c)))"
proof (induction arbitrary: used out rule: list_all2_induct)
  case Nil
  then show ?case by simp
next
  case (Cons r rs c cs)
  show ?case
  proof (cases "used + int (length c) > m")
    case True
    with Cons.hyps(1) show ?thesis
      by (intro exI[of _ 0]) simp
  next
    case False
    from Cons.IH[of "used + int (length c)" "out @ [c]"]
    obtain k where k: "k \<le> length cs"
      "build_loop w m rs (used + int (length c)) (out @ [c]) = Inr ((out @ [c]) @ take k cs)"
      "0 < k \<longrightarrow> used + int (length c) + (\<Sum>c\<leftarrow>take k cs. int (length c)) \<le> m"
      "k < length cs \<longrightarrow> m < used + int (length c) + (\<Sum>c\<leftarrow>take (Suc k) cs. int (length c))"
      by blast
    show ?thesis
    proof (intro exI[of _ "Suc k"] conjI)
      show "Suc k \<le> length (c # cs)" using k(1) by simp
      show "build_loop w m (r # rs) used out = Inr (out @ take (Suc k) (c # cs))"
        using Cons.hyps(1) False k(2) by simp
      show "0 < Suc k \<longrightarrow> used + (\<Sum>c\<leftarrow>take (Suc k) (c # cs). int (length c)) \<le> m"
        using False k(3) by (cases k) auto
      show "Suc k < length (c # cs) \<longrightarrow>
            m < used + (\<Sum>c\<leftarrow>take (Suc (Suc k)) (c # cs). int (length c))"
        using k(4) by (simp add: add.assoc)
    qed
  qed
qed

lemma chunk_tiny: "chunk_of demo_world tiny_result = Inr tiny_chunk"
  by (simp add: chunk_of_def tiny_result_def ebind_def py_get_def opt_json_def py_or_def
      format_value_def strip_def ascii_def tiny_chunk_def)

lemma length_tiny_chunk: "length tiny_chunk = 11"
  by (simp add: tiny_chunk_def SOURCE_TAG_def ascii_def NL_def)

lemma replicate_13: "replicate 13 x = [x, x, x, x, x, x, x, x, x, x, x, x, x]"
  by (simp add: eval_nat_numeral)

text \<open>
  Claim C3, as amended. Without results the context is the fixed placeholder, whatever the
  budget. A result with a file name and an excerpt gives the chunk made of the source
  header with the file name, a newline, the stripped excerpt and a newline. For a
  non-empty list of results whose chunks are \<open>cs\<close>, the context is the first \<open>k\<close> chunks, in
  their order, joined by newlines, where \<open>k\<close> is where the loop stops: the first \<open>k\<close> chunks
  together fit the budget and one more would not. The joining newlines are not counted
  against the budget, so the context is at most \<open>max_chars + k - 1\<close> characters long.
\<close>

theorem build_context_prefix_by_budget:
  "build_context w (JArr []) max_chars = Inr NO_CONTEXT \<and>
   (map_of d (ascii ''filename'') = Some (JStr fn) \<and> fn \<noteq> [] \<and>
    map_of d (ascii ''excerpt'') = Some (JStr ex)
      \<longrightarrow> chunk_of w (JObj d) = Inr (SOURCE_TAG @ fn @ ascii '']'' @ NL @ strip ex @ NL)) \<and>
   (rs \<noteq> [] \<and> list_all2 (\<lambda>r c. chunk_of w r = Inr c) rs cs
      \<longrightarrow> (\<exists>k\<le>length cs.
             build_context w (JArr rs) max_chars = Inr (join NL (take k cs)) \<and>
             (0 < k \<longrightarrow> (\<Sum>c\<leftarrow>take k cs. int (length c)) \<le> max_chars) \<and>
             (k < length cs \<longrightarrow> max_chars < (\<Sum>c\<leftarrow>take (Suc k) cs. int (length c))) \<and>
             (0 < k \<longrightarrow> int (length (join NL (take k cs))) \<le> max_chars + int k - 1)))"
proof (intro conjI impI)
  show "build_context w (JArr []) max_chars = Inr NO_CONTEXT"
    by (simp add: build_context_def)
next
  assume "map_of d (ascii ''filename'') = Some (JStr fn) \<and> fn \<noteq> [] \<and>
    map_of d (ascii ''excerpt'') = Some (JStr ex)"
  then show "chunk_of w (JObj d) = Inr (SOURCE_TAG @ fn @ ascii '']'' @ NL @ strip ex @ NL)"
    by (auto simp: chunk_of_def ebind_def py_get_def opt_json_def py_or_def format_value_def)
next
  assume a: "rs \<noteq> [] \<and> list_all2 (\<lambda>r c. chunk_of w r = Inr c) rs cs"
  from build_loop_prefix[of w rs cs max_chars 0 "[]"] a
  obtain k where k: "k \<le> length cs"
    "build_loop w max_chars rs 0 [] = Inr (take k cs)"
    "0 < k \<longrightarrow> (\<Sum>c\<leftarrow>take k cs. int (length c)) \<le> max_chars"
    "k < length cs \<longrightarrow> max_chars < (\<Sum>c\<leftarrow>take (Suc k) cs. int (length c))"
    by auto
  have len: "0 < k \<longrightarrow> int (length (join NL (take k cs))) \<le> max_chars + int k - 1"
  proof
    assume "0 < k"
    with k(1) have ne: "take k cs \<noteq> []" by auto
    have lk: "length (take k cs) = k" using k(1) by simp
    from length_join[OF ne] k(3) \<open>0 < k\<close>
    show "int (length (join NL (take k cs))) \<le> max_chars + int k - 1"
      unfolding lk by linarith
  qed
  have "build_context w (JArr rs) max_chars = Inr (join NL (take k cs))"
    using a k(2) by (simp add: build_context_def py_iter_def ebind_def)
  with k len
  show "\<exists>k\<le>length cs.
             build_context w (JArr rs) max_chars = Inr (join NL (take k cs)) \<and>
             (0 < k \<longrightarrow> (\<Sum>c\<leftarrow>take k cs. int (length c)) \<le> max_chars) \<and>
             (k < length cs \<longrightarrow> max_chars < (\<Sum>c\<leftarrow>take (Suc k) cs. int (length c))) \<and>
             (0 < k \<longrightarrow> int (length (join NL (take k cs))) \<le> max_chars + int k - 1)"
    by blast
qed

theorem build_context_prefix_by_budget_witness:
  "map_of [(ascii ''filename'', JStr (ascii ''a'')), (ascii ''excerpt'', JStr (ascii '' x ''))]
     (ascii ''filename'') = Some (JStr (ascii ''a'')) \<and>
   ascii ''a'' \<noteq> [] \<and>
   map_of [(ascii ''filename'', JStr (ascii ''a'')), (ascii ''excerpt'', JStr (ascii '' x ''))]
     (ascii ''excerpt'') = Some (JStr (ascii '' x '')) \<and>
   chunk_of demo_world
     (JObj [(ascii ''filename'', JStr (ascii ''a'')), (ascii ''excerpt'', JStr (ascii '' x ''))]) =
     Inr (SOURCE_TAG @ ascii ''a'' @ ascii '']'' @ NL @ strip (ascii '' x '') @ NL) \<and>
   [tiny_result, tiny_result] \<noteq> [] \<and>
   list_all2 (\<lambda>r c. chunk_of demo_world r = Inr c)
     [tiny_result, tiny_result] [tiny_chunk, tiny_chunk] \<and>
   (\<exists>k\<le>length [tiny_chunk, tiny_chunk].
      build_context demo_world (JArr [tiny_result, tiny_result]) 11 =
        Inr (join NL (take k [tiny_chunk, tiny_chunk])) \<and>
      (0 < k \<longrightarrow> (\<Sum>c\<leftarrow>take k [tiny_chunk, tiny_chunk]. int (length c)) \<le> 11) \<and>
      (k < length [tiny_chunk, tiny_chunk]
         \<longrightarrow> 11 < (\<Sum>c\<leftarrow>take (Suc k) [tiny_chunk, tiny_chunk]. int (length c))) \<and>
      (0 < k \<longrightarrow> int (length (join NL (take k [tiny_chunk, tiny_chunk]))) \<le> 11 + int k - 1))"
  using build_context_prefix_by_budget[of demo_world 11
      "[(ascii ''filename'', JStr (ascii ''a'')), (ascii ''excerpt'', JStr (ascii '' x ''))]"
      "ascii ''a''" "ascii '' x ''" "[tiny_result, tiny_result]" "[tiny_chunk, tiny_chunk]"]
    chunk_tiny
  by simp

text \<open>
  Thirteen results of eleven characters each fill a budget of 143 exactly; the twelve
  joining newlines make the context 155 characters long, more than the budget plus a chunk.
\<close>

theorem build_context_overshoot_counterexample:
  "\<not> one_chunk_allowance demo_world (replicate 13 tiny_result) 143"
proof -
  have "build_context demo_world (JArr (replicate 13 tiny_result)) 143 =
        Inr (join NL (replicate 13 tiny_chunk))"
    unfolding replicate_13
    by (simp add: build_context_def py_iter_def ebind_def chunk_tiny length_tiny_chunk
        del: join.simps)
  moreover have "length (join NL (replicate 13 tiny_chunk)) = 155"
    unfolding replicate_13 by (simp add: length_tiny_chunk NL_def)
  ultimately show ?thesis
    unfolding one_chunk_allowance_def
    by (simp add: replicate_13 chunk_tiny length_tiny_chunk)
qed

subsection \<open>Responses and their CORS fields\<close>

lemma responses_append [simp]: "responses (xs @ ys) = responses xs @ responses ys"
  by (induction xs rule: responses.induct) auto

lemma responses_log [simp]: "responses (log w) = []"
  by (simp add: log_def)

text \<open>Case distinctions as conditionals, for the events of nested computations.\<close>

lemmas case_eq_ifs = prod.case_eq_if option.case_eq_if sum.case_eq_if list.case_eq_if

lemma responses_rag_loop [simp]: "responses (snd (rag_loop w rq i n)) = []"
  by (induction n arbitrary: i) (simp_all add: case_eq_ifs)

lemma responses_rag_search [simp]: "responses (snd (rag_search w q k t inc f)) = []"
  by (simp add: rag_search_def case_eq_ifs)

lemma responses_primary [simp]: "responses (snd (primary w msgs)) = []"
  by (simp add: primary_def Let_def case_eq_ifs)

lemma responses_fallback [simp]: "responses (snd (fallback w msgs)) = []"
  by (simp add: fallback_def case_eq_ifs)

lemma responses_llm_answer [simp]: "responses (snd (llm_answer w q rs)) = []"
  by (simp add: llm_answer_def case_eq_ifs)

lemma responses_relay [simp]: "responses [ev. Effect ev \<leftarrow> relay w chunks fin] = []"
  by (induction w chunks fin rule: relay.induct) simp_all

lemma consume_effects:
  "set (fst (consume bp n steps)) \<subseteq> {ev. Effect ev \<in> set steps} \<union> range Write"
  by (induction bp n steps rule: consume.induct) (auto simp: case_eq_ifs)


lemma no_effect_relay: "Effect ev \<notin> set (relay w chunks fin)"
  by (induction w chunks fin rule: relay.induct) simp_all

lemma effects_llm_stream:
  "Effect ev \<in> set (fst (llm_stream w q rs)) \<Longrightarrow> responses [ev] = []"
  using no_effect_relay[of ev w]
  by (auto simp: llm_stream_def split: sum.splits prod.splits)

lemma responses_consume:
  "(\<And>ev. Effect ev \<in> set steps \<Longrightarrow> responses [ev] = []) \<Longrightarrow>
   responses (fst (consume bp n steps)) = []"
proof (induction bp n steps rule: consume.induct)
  case (1 bp n)
  then show ?case by simp
next
  case (2 bp n ev ss)
  from 2(2)[of ev] have "responses [ev] = []" by simp
  moreover have "responses (fst (consume bp n ss)) = []" using 2 by simp
  ultimately show ?case
    using responses_append[of "[ev]" "fst (consume bp n ss)"] by (simp add: case_eq_ifs)
next
  case (3 bp n c ss)
  then show ?case by (simp add: case_eq_ifs)
qed

lemma responses_stream [simp]:
  "responses (fst (consume bp n (fst (llm_stream w q rs)))) = []"
  by (rule responses_consume) (rule effects_llm_stream)

lemma responses_send_headers [simp]:
  "responses (send_headers w rq st ct extra) = [(st, header_fields w rq ct extra)]"
  by (simp add: send_headers_def)

lemma responses_send_json [simp]:
  "responses (send_json w rq obj st) = [(st, header_fields w rq (ascii ''application/json'') [])]"
  by (simp add: send_json_def)

lemma responses_chat_try:
  "(st, hs) \<in> set (responses (snd (chat_try w rq))) \<Longrightarrow> \<exists>ct. hs = header_fields w rq ct []"
  by (auto simp: chat_try_def case_eq_ifs split: if_splits)

lemma responses_upload_try:
  "(st, hs) \<in> set (responses (snd (upload_try w rq))) \<Longrightarrow> \<exists>ct. hs = header_fields w rq ct []"
  by (auto simp: upload_try_def case_eq_ifs split: if_splits)

lemma responses_do_GET:
  "(st, hs) \<in> set (responses (fst (do_GET w rq))) \<Longrightarrow>
   \<exists>ct extra. hs = header_fields w rq ct extra \<and>
     (extra = [] \<or> extra = [(ascii ''Connection'', ascii ''keep-alive'')])"
  by (auto simp: do_GET_def case_eq_ifs split: if_splits)

lemma responses_do_POST:
  "(st, hs) \<in> set (responses (fst (do_POST w rq))) \<Longrightarrow> \<exists>ct. hs = header_fields w rq ct []"
  by (auto simp: do_POST_def case_eq_ifs split: if_splits
      dest: responses_chat_try responses_upload_try)

lemma responses_handle:
  "(st, hs) \<in> set (responses (fst (handle w m rq))) \<Longrightarrow>
   \<exists>ct extra. hs = header_fields w rq ct extra \<and>
     (extra = [] \<or> extra = [(ascii ''Connection'', ascii ''keep-alive'')])"
proof (cases m)
  case GET
  assume "(st, hs) \<in> set (responses (fst (handle w m rq)))"
  with GET show ?thesis by (simp add: handle_def responses_do_GET)
next
  case POST
  assume "(st, hs) \<in> set (responses (fst (handle w m rq)))"
  with POST have "(st, hs) \<in> set (responses (fst (do_POST w rq)))" by (simp add: handle_def)
  from responses_do_POST[OF this] show ?thesis by blast
next
  case OPTIONS
  assume "(st, hs) \<in> set (responses (fst (handle w m rq)))"
  with OPTIONS show ?thesis by (auto simp: handle_def do_OPTIONS_def)
qed


lemma CORS_ALLOW_entries: "og \<in> set (CORS_ALLOW w) \<Longrightarrow> og \<noteq> []"
  by (auto simp: CORS_ALLOW_def)

lemma acao_header_fields:
  "extra = [] \<or> extra = [(ascii ''Connection'', ascii ''keep-alive'')] \<Longrightarrow>
   header_values (ascii ''Access-Control-Allow-Origin'') (header_fields w rq ct extra) =
     (case allow_origin w (headers_get rq (ascii ''Origin'')) of
        None \<Rightarrow> []
      | Some a \<Rightarrow> if a \<noteq> [] then [a] else [])"
  by (auto simp: header_fields_def header_values_def split: option.splits)

lemma acac_header_fields:
  "extra = [] \<or> extra = [(ascii ''Connection'', ascii ''keep-alive'')] \<Longrightarrow>
   header_values (ascii ''Access-Control-Allow-Credentials'') (header_fields w rq ct extra) =
     (case allow_origin w (headers_get rq (ascii ''Origin'')) of
        None \<Rightarrow> []
      | Some a \<Rightarrow> if a \<noteq> [] then [ascii ''true''] else [])"
  by (auto simp: header_fields_def header_values_def split: option.splits)

text \<open>
  Claim C7. When the CORS allow-list is configured non-empty, every response, on every
  route and for every method the handler serves, carries no \<open>Access-Control-Allow-Origin\<close>
  field if the request has no \<open>Origin\<close> field or one that is not in the list, and exactly
  one such field, set to the request's origin, if that origin is in the list.
\<close>

theorem cors_allow_list:
  "CORS_ALLOW w \<noteq> [] \<longrightarrow>
   (\<forall>(st, hs) \<in> set (responses (fst (handle w m rq))).
      header_values (ascii ''Access-Control-Allow-Origin'') hs =
        (case headers_get rq (ascii ''Origin'') of
           None \<Rightarrow> []
         | Some og \<Rightarrow> if og \<in> set (CORS_ALLOW w) then [og] else []))"
proof (intro impI ballI, clarify)
  fix st hs
  assume ne: "CORS_ALLOW w \<noteq> []"
    and r: "(st, hs) \<in> set (responses (fst (handle w m rq)))"
  from responses_handle[OF r] obtain ct extra where
    h: "hs = header_fields w rq ct extra"
       "extra = [] \<or> extra = [(ascii ''Connection'', ascii ''keep-alive'')]"
    by blast
  show "header_values (ascii ''Access-Control-Allow-Origin'') hs =
        (case headers_get rq (ascii ''Origin'') of
           None \<Rightarrow> []
         | Some og \<Rightarrow> if og \<in> set (CORS_ALLOW w) then [og] else [])"
    unfolding h(1) acao_header_fields[OF h(2)]
    using ne CORS_ALLOW_entries[of _ w]
    by (auto simp: allow_origin_def split: option.splits)
qed

text \<open>
  Claim C10. When the CORS allow-list is empty, every response, on every route and
  whatever the request's \<open>Origin\<close> field, carries \<open>Access-Control-Allow-Origin: *\<close> and with it
  \<open>Access-Control-Allow-Credentials: true\<close>.
\<close>

theorem cors_wildcard:
  "CORS_ALLOW w = [] \<longrightarrow>
   (\<forall>(st, hs) \<in> set (responses (fst (handle w m rq))).
      header_values (ascii ''Access-Control-Allow-Origin'') hs = [ascii ''*''] \<and>
      header_values (ascii ''Access-Control-Allow-Credentials'') hs = [ascii ''true''])"
proof (intro impI ballI, clarify)
  fix st hs
  assume e: "CORS_ALLOW w = []"
    and r: "(st, hs) \<in> set (responses (fst (handle w m rq)))"
  from responses_handle[OF r] obtain ct extra where
    h: "hs = header_fields w rq ct extra"
       "extra = [] \<or> extra = [(ascii ''Connection'', ascii ''keep-alive'')]"
    by blast
  show "header_values (ascii ''Access-Control-Allow-Origin'') hs = [ascii ''*''] \<and>
      header_values (ascii ''Access-Control-Allow-Credentials'') hs = [ascii ''true'']"
    unfolding h(1) acao_header_fields[OF h(2)] acac_header_fields[OF h(2)]
    using e by (simp add: allow_origin_def)
qed

lemma CORS_ALLOW_cors_world: "CORS_ALLOW cors_world = [ascii ''https://good.example'']"
  by (simp add: CORS_ALLOW_def cors_world_def demo_world_def ascii_def strip_def is_space_def)

lemma CORS_ALLOW_demo_world: "CORS_ALLOW demo_world = []"
  by (simp add: CORS_ALLOW_def demo_world_def strip_def)

lemma origin_health_request:
  "headers_get (health_request origin) (ascii ''Origin'') = origin"
  by (cases origin) (simp_all add: headers_get_def health_request_def)

lemma handle_health:
  "responses (fst (handle w GET (health_request origin))) =
     [(200, header_fields w (health_request origin) (ascii ''application/json'') [])]"
  by (simp add: handle_def do_GET_def health_request_def)

theorem cors_allow_list_witness:
  "CORS_ALLOW cors_world \<noteq> [] \<and>
   responses (fst (handle cors_world GET (health_request (Some (ascii ''https://evil.example''))))) =
     [(200, header_fields cors_world (health_request (Some (ascii ''https://evil.example'')))
              (ascii ''application/json'') [])] \<and>
   header_values (ascii ''Access-Control-Allow-Origin'')
     (header_fields cors_world (health_request (Some (ascii ''https://evil.example'')))
        (ascii ''application/json'') []) = [] \<and>
   responses (fst (handle cors_world GET (health_request (Some (ascii ''https://good.example''))))) =
     [(200, header_fields cors_world (health_request (Some (ascii ''https://good.example'')))
              (ascii ''application/json'') [])] \<and>
   header_values (ascii ''Access-Control-Allow-Origin'')
     (header_fields cors_world (health_request (Some (ascii ''https://good.example'')))
        (ascii ''application/json'') []) = [ascii ''https://good.example'']"
  using cors_allow_list[of cors_world GET "health_request (Some (ascii ''https://evil.example''))"]
    cors_allow_list[of cors_world GET "health_request (Some (ascii ''https://good.example''))"]
  by (simp add: CORS_ALLOW_cors_world handle_health origin_health_request)

theorem cors_wildcard_witness:
  "CORS_ALLOW demo_world = [] \<and>
   responses (fst (handle demo_world GET (health_request (Some (ascii ''https://evil.example''))))) =
     [(200, header_fields demo_world (health_request (Some (ascii ''https://evil.example'')))
              (ascii ''application/json'') [])] \<and>
   header_values (ascii ''Access-Control-Allow-Origin'')
     (header_fields demo_world (health_request (Some (ascii ''https://evil.example'')))
        (ascii ''application/json'') []) = [ascii ''*''] \<and>
   header_values (ascii ''Access-Control-Allow-Credentials'')
     (header_fields demo_world (health_request (Some (ascii ''https://evil.example'')))
        (ascii ''application/json'') []) = [ascii ''true'']"
  using cors_wildcard[of demo_world GET "health_request (Some (ascii ''https://evil.example''))"]
  by (simp add: CORS_ALLOW_demo_world handle_health)

subsection \<open>The routes of POST\<close>

lemma posts_send_json [simp]: "posts (send_json w rq obj st) = []"
  by (simp add: send_json_def send_headers_def)

lemma outbound_send_json [simp]: "outbound (send_json w rq obj st) = []"
  by (simp add: send_json_def send_headers_def)

lemma Nil_ascii_iff [simp]: "[] = ascii a \<longleftrightarrow> a = []"
  by (simp add: ascii_def)

lemma headers_get_upload:
  "headers_get upload_request (ascii ''Content-Length'') = Some (ascii ''3'')"
  "headers_get upload_request (ascii ''X-LOT-KEY'') = None"
  by (simp_all add: headers_get_def upload_request_def ascii_def lower_cp_def)

lemma content_length_upload [simp]:
  "int_of_str w (ascii ''3'') = Inr 3 \<Longrightarrow> content_length w upload_request = Inr 3"
  by (simp add: content_length_def headers_get_upload)

lemma int_of_str_demo [simp]: "int_of_str demo_world (ascii ''3'') = Inr 3"
  by (simp add: demo_world_def)

lemma int_of_str_secret [simp]: "int_of_str secret_world (ascii ''3'') = Inr 3"
  by (simp add: secret_world_def demo_world_def)

lemma int_of_str_bad_gateway [simp]: "int_of_str bad_gateway_world (ascii ''3'') = Inr 3"
  by (simp add: bad_gateway_world_def demo_world_def)

text \<open>
  Claim C1, at the input where the code departs from it. The shared secret is set and the
  request carries no \<open>X-LOT-KEY\<close> field, so the auth check fails; yet \<open>POST /api/upload\<close>
  never makes the check: the body is posted to the vector store and the upstream answer is
  relayed with status 200. The same request sent to \<open>/api/chat\<close> is refused with 401 and
  nothing is posted.
\<close>

theorem upload_skips_auth:
  "CHAT_API_SECRET secret_world = ascii ''s3cret'' \<and>
   headers_get upload_request (ascii ''X-LOT-KEY'') = None \<and>
   \<not> auth_ok secret_world upload_request \<and>
   posts (fst (do_POST secret_world upload_request)) =
     [index_request secret_world upload_request 3] \<and>
   map fst (responses (fst (do_POST secret_world upload_request))) = [200] \<and>
   posts (fst (do_POST secret_world (upload_request\<lparr>req_path := ascii ''/api/chat''\<rparr>))) = [] \<and>
   map fst (responses (fst (do_POST secret_world (upload_request\<lparr>req_path := ascii ''/api/chat''\<rparr>)))) =
     [401]"
proof -
  have k: "headers_get upload_request (ascii ''X-LOT-KEY'') = None"
    by (rule headers_get_upload)
  have k': "headers_get (upload_request\<lparr>req_path := ascii ''/api/chat''\<rparr>) (ascii ''X-LOT-KEY'') = None"
    using k by (simp add: headers_get_def)
  have s: "CHAT_API_SECRET secret_world = ascii ''s3cret''"
    by (simp add: secret_world_def)
  have a: "\<not> auth_ok secret_world upload_request"
    "\<not> auth_ok secret_world (upload_request\<lparr>req_path := ascii ''/api/chat''\<rparr>)"
    using k k' s by (simp_all add: auth_ok_def)
  have p: "req_path upload_request = ascii ''/api/upload''"
    by (simp add: upload_request_def)
  have r: "requests_installed secret_world"
    "requests_post secret_world 0 (index_request secret_world upload_request 3) =
       Inr (accepted_reply (index_request secret_world upload_request 3))"
    by (simp_all add: secret_world_def demo_world_def)
  have u: "do_POST secret_world upload_request =
        (Post (index_request secret_world upload_request 3) #
         send_json secret_world upload_request (JObj [(ascii ''ok'', JBool True)]) 200, None)"
    using p r by (simp add: do_POST_def upload_try_def accepted_reply_def)
  have c: "do_POST secret_world (upload_request\<lparr>req_path := ascii ''/api/chat''\<rparr>) =
        (send_json secret_world (upload_request\<lparr>req_path := ascii ''/api/chat''\<rparr>) unauthorized 401, None)"
    using a(2) by (simp add: do_POST_def)
  show ?thesis
    unfolding u c using k s a(1) by simp
qed












subsection \<open>The streamed answer\<close>








lemma closing_clean: "Some [] \<notin> set chunks \<Longrightarrow> closing w chunks None = NL"
  by (induction w chunks "None :: exn option" rule: closing.induct) simp_all


lemma yields_map_Yield [simp]: "yields (map Yield xs) = xs"
  by (induction xs) auto










end
